theory Spec2Isabelle
  imports Complex_Main "HOL-Library.Word"
begin

unbundle bit_operations_syntax

section \<open>Python values, exceptions and the operations the driver applies to them\<close>

text \<open>
  The driver (\<^verbatim>\<open>sonic_xcvr/api/public/cmis.py\<close>, class \<^verbatim>\<open>CmisApi\<close>) is dynamically typed.
  A register read yields \<^verbatim>\<open>None\<close>, a \<^verbatim>\<open>bool\<close>, a number, a string, or, for a group of fields, a
  dictionary from field names to such values: these are the values of \<open>pyval\<close>. Integers
  are unbounded, as in Python. A float is an IEEE-754 double: \<open>PFloat r\<close> is the finite
  float of value \<open>r\<close>, \<open>PNonFinite\<close> is \<^verbatim>\<open>inf\<close>, \<^verbatim>\<open>-inf\<close> or \<^verbatim>\<open>nan\<close>; the sign of a zero is not
  kept. A dictionary is an association list in insertion order, in which the first binding
  of a key is the live one.
\<close>

datatype exn =
    KeyError | TypeError | IndexError | AttributeError | ValueError
  | OverflowError | ZeroDivisionError

datatype nonfinite = PosInf | NegInf | NaN

datatype pyval =
    PNone
  | PBool bool
  | PInt int
  | PFloat rat
  | PNonFinite nonfinite
  | PStr string
  | PDict "(string \<times> pyval) list"

text \<open>A raised exception is \<open>Inl\<close>; \<open>ebind\<close> sequences two steps and stops at the first raise.\<close>

definition ebind :: "exn + 'a \<Rightarrow> ('a \<Rightarrow> exn + 'b) \<Rightarrow> exn + 'b" where
  "ebind m f = (case m of Inl e \<Rightarrow> Inl e | Inr v \<Rightarrow> f v)"

text \<open>\<^verbatim>\<open>str(n)\<close> and \<^verbatim>\<open>'%d' % n\<close> for an integer: decimal digits, a minus sign when negative.\<close>

fun str_nat :: "nat \<Rightarrow> string" where
  "str_nat n = (if n < 10 then [''0123456789'' ! n]
                else str_nat (n div 10) @ [''0123456789'' ! (n mod 10)])"

definition str_int :: "int \<Rightarrow> string" where
  "str_int i = (if i < 0 then ''-'' @ str_nat (nat (- i)) else str_nat (nat i))"

text \<open>\<^verbatim>\<open>v >= k\<close> for an integer literal \<open>k\<close>: defined on numbers, \<^verbatim>\<open>TypeError\<close> otherwise.\<close>

fun py_ge_int :: "pyval \<Rightarrow> int \<Rightarrow> exn + bool" where
  "py_ge_int (PBool b) k = Inr (k \<le> (if b then 1 else 0))"
| "py_ge_int (PInt i) k = Inr (k \<le> i)"
| "py_ge_int (PFloat r) k = Inr (of_int k \<le> r)"
| "py_ge_int (PNonFinite n) k = Inr (n = PosInf)"
| "py_ge_int _ k = Inl TypeError"

text \<open>\<^verbatim>\<open>v & k\<close> and \<^verbatim>\<open>v | k\<close> for an integer \<open>k\<close>: defined on \<^verbatim>\<open>int\<close> and \<^verbatim>\<open>bool\<close> operands.\<close>

fun py_and_int :: "pyval \<Rightarrow> int \<Rightarrow> exn + pyval" where
  "py_and_int (PBool b) k = Inr (PInt ((if b then 1 else 0) AND k))"
| "py_and_int (PInt i) k = Inr (PInt (i AND k))"
| "py_and_int _ k = Inl TypeError"

fun py_or_int :: "pyval \<Rightarrow> int \<Rightarrow> exn + pyval" where
  "py_or_int (PBool b) k = Inr (PInt ((if b then 1 else 0) OR k))"
| "py_or_int (PInt i) k = Inr (PInt (i OR k))"
| "py_or_int _ k = Inl TypeError"

section \<open>The register-access collaborator\<close>

text \<open>
  Modelled from the spec: the register-access collaborator \<^verbatim>\<open>xcvr_eeprom\<close> is not part of the
  sources; section 6 of the specification gives it as \<^verbatim>\<open>read(fieldId)\<close>, which yields a
  value or fails, and \<^verbatim>\<open>write(fieldId, value) -> bool\<close>. A failed read is \<open>PNone\<close>, as
  the driver tests it (\<^verbatim>\<open>is None\<close>). The collaborator is a store: \<open>mem\<close> holds what a read
  of each field returns, \<open>write_ok\<close> tells which writes succeed, a successful write replaces
  the stored value, and \<open>wlog\<close> records every write issued, oldest first.
\<close>

record xcvr_eeprom =
  mem :: "string \<Rightarrow> pyval"
  write_ok :: "string \<Rightarrow> bool"
  wlog :: "(string \<times> pyval) list"

definition eeprom_read :: "xcvr_eeprom \<Rightarrow> string \<Rightarrow> pyval" where
  "eeprom_read e f = mem e f"

definition eeprom_write :: "xcvr_eeprom \<Rightarrow> string \<Rightarrow> pyval \<Rightarrow> bool \<times> xcvr_eeprom" where
  "eeprom_write e f v =
     (write_ok e f,
      e\<lparr>mem := (if write_ok e f then (mem e)(f := v) else mem e),
        wlog := wlog e @ [(f, v)]\<rparr>)"

text \<open>
  The field-name constants of \<^verbatim>\<open>fields/consts.py\<close> are not part of the sources either. Each
  is a string in the driver; here each stands for itself, as the string of its own
  identifier.
\<close>

abbreviation CMIS_MAJOR_REVISION :: string where "CMIS_MAJOR_REVISION \<equiv> ''CMIS_MAJOR_REVISION''"
abbreviation DATAPATH_DEINIT_FIELD :: string where "DATAPATH_DEINIT_FIELD \<equiv> ''DATAPATH_DEINIT_FIELD''"

section \<open>The driver instance\<close>

text \<open>
  Modelled from the spec: the VDM page reader (\<^verbatim>\<open>cmisVDM.py\<close>) and the CDB command layer
  (\<^verbatim>\<open>cmisCDB.py\<close>) are not part of the sources. Following section 6, the VDM reader maps a
  field option to the raw nested structure it returns, and each CDB command returns a
  status and, for queries, a reply \<^verbatim>\<open>(length, checksum, payload)\<close>. A CDB reply may depend
  on every command issued before, so the collaborator is a function of that history, and
  the driver instance carries the history (\<open>cdb_log\<close>, oldest first).
\<close>

text \<open>
  The raw structure the VDM reader returns is indexed as
  \<^verbatim>\<open>raw[observable][lane][subtype index]\<close>, with a string, an integer lane and an integer
  position. \<open>vdm_raw\<close> holds any nesting of dictionaries (with string or integer keys; a
  \<^verbatim>\<open>bool\<close> key is the integer it equals), sequences and scalars, so that a structure of the
  wrong shape at any level is a value of the type.
\<close>

datatype vkey = KStr string | KInt int

datatype vdm_raw =
    VNone
  | VBool bool
  | VInt int
  | VFloat rat
  | VStr string
  | VList "vdm_raw list"
  | VDict "(vkey \<times> vdm_raw) list"

datatype vdm_field = VDM_REAL_VALUE | VDM_THRESHOLD | VDM_FLAG | ALL_FIELD

record cmis_vdm_api =
  get_vdm_allpage :: "vdm_field \<Rightarrow> vdm_raw"

type_synonym byte = "8 word"

datatype cdb_cmd =
    GetFwInfo
  | GetFwManagementFeatures
  | ModuleEnterPassword "int option"
  | RunFwImage int
  | CommitFwImage
  | StartFwDownload int "byte list" int
  | BlockWriteLpl int "byte list"
  | BlockWriteEpl int "byte list" bool int
  | ValidateFwImage
  | AbortFwDownload

record cdb_reply =
  cdb_status :: int
  cdb_rpllen :: "int option"
  cdb_rpl_chkcode :: "int option"
  cdb_rpl :: "byte list"

record cmis_cdb_api =
  respond :: "cdb_cmd list \<Rightarrow> cdb_cmd \<Rightarrow> cdb_reply"
  cdb_chkcode :: "byte list \<Rightarrow> int"

record cmis_api =
  xcvr_eeprom :: xcvr_eeprom
  vdm :: "cmis_vdm_api option"
  cdb :: "cmis_cdb_api option"
  cdb_log :: "cdb_cmd list"

definition NUM_CHANNELS :: nat where
  "NUM_CHANNELS = 8"

definition rd :: "cmis_api \<Rightarrow> string \<Rightarrow> pyval" where
  "rd self f = eeprom_read (xcvr_eeprom self) f"

definition wr :: "cmis_api \<Rightarrow> string \<Rightarrow> pyval \<Rightarrow> bool \<times> cmis_api" where
  "wr self f v =
     (case eeprom_write (xcvr_eeprom self) f v of (ok, e') \<Rightarrow> (ok, self\<lparr>xcvr_eeprom := e'\<rparr>))"

section \<open>Datapath init and deinit\<close>

text \<open>
  \<^verbatim>\<open>set_datapath_init\<close> and \<^verbatim>\<open>set_datapath_deinit\<close>: both read the CMIS major revision and
  the shared register, walk the lanes \<open>0..7\<close>, skip a lane whose bit is clear in
  \<open>channel\<close>, and otherwise set or clear the lane's bit depending on the revision; the value
  is written back once. Neither function has a \<^verbatim>\<open>return\<close> statement, so the model
  returns the driver instance after the write.
\<close>

fun datapath_init_lanes :: "pyval \<Rightarrow> int \<Rightarrow> pyval \<Rightarrow> nat list \<Rightarrow> exn + pyval" where
  "datapath_init_lanes cmis_major channel data [] = Inr data"
| "datapath_init_lanes cmis_major channel data (lane # lanes) =
     (if (push_bit lane 1) AND channel = 0
      then datapath_init_lanes cmis_major channel data lanes
      else ebind (py_ge_int cmis_major 4) (\<lambda>v4.
             ebind (if v4 then py_and_int data (NOT (push_bit lane 1))
                    else py_or_int data (push_bit lane 1))
               (\<lambda>data'. datapath_init_lanes cmis_major channel data' lanes)))"

fun datapath_deinit_lanes :: "pyval \<Rightarrow> int \<Rightarrow> pyval \<Rightarrow> nat list \<Rightarrow> exn + pyval" where
  "datapath_deinit_lanes cmis_major channel data [] = Inr data"
| "datapath_deinit_lanes cmis_major channel data (lane # lanes) =
     (if (push_bit lane 1) AND channel = 0
      then datapath_deinit_lanes cmis_major channel data lanes
      else ebind (py_ge_int cmis_major 4) (\<lambda>v4.
             ebind (if v4 then py_or_int data (push_bit lane 1)
                    else py_and_int data (NOT (push_bit lane 1)))
               (\<lambda>data'. datapath_deinit_lanes cmis_major channel data' lanes)))"

definition set_datapath_init :: "cmis_api \<Rightarrow> int \<Rightarrow> exn + cmis_api" where
  "set_datapath_init self channel =
     (let cmis_major = rd self CMIS_MAJOR_REVISION;
          data = rd self DATAPATH_DEINIT_FIELD
      in ebind (datapath_init_lanes cmis_major channel data [0..<NUM_CHANNELS])
           (\<lambda>data'. Inr (snd (wr self DATAPATH_DEINIT_FIELD data'))))"

definition set_datapath_deinit :: "cmis_api \<Rightarrow> int \<Rightarrow> exn + cmis_api" where
  "set_datapath_deinit self channel =
     (let cmis_major = rd self CMIS_MAJOR_REVISION;
          data = rd self DATAPATH_DEINIT_FIELD
      in ebind (datapath_deinit_lanes cmis_major channel data [0..<NUM_CHANNELS])
           (\<lambda>data'. Inr (snd (wr self DATAPATH_DEINIT_FIELD data'))))"

section \<open>Flat memory and construction\<close>

abbreviation FLAT_MEM_FIELD :: string where "FLAT_MEM_FIELD \<equiv> ''FLAT_MEM_FIELD''"

text \<open>
  \<^verbatim>\<open>is_flat_memory\<close>: \<^verbatim>\<open>read(FLAT_MEM_FIELD) is not False\<close>, an identity test against the
  singleton \<^verbatim>\<open>False\<close>. The decorator \<^verbatim>\<open>read_only_cached_api_return\<close> (\<^verbatim>\<open>utils/cache.py\<close>, not
  part of the sources) memoises a getter's result on the instance; the store changes only
  by the driver's own writes and no decorated getter reads a field the driver writes, so
  a decorated getter is modelled by its body.
\<close>

definition is_flat_memory :: "cmis_api \<Rightarrow> bool" where
  "is_flat_memory self = (rd self FLAT_MEM_FIELD \<noteq> PBool False)"

text \<open>
  \<^verbatim>\<open>__init__\<close>: the VDM and CDB handles are created unless the module is flat memory.
  \<open>new_vdm\<close> and \<open>new_cdb\<close> are the collaborators \<^verbatim>\<open>CmisVdmApi(xcvr_eeprom)\<close> and
  \<^verbatim>\<open>CmisCdbApi(xcvr_eeprom)\<close> would construct.
\<close>

definition init :: "xcvr_eeprom \<Rightarrow> cmis_vdm_api \<Rightarrow> cmis_cdb_api \<Rightarrow> cmis_api" where
  "init e new_vdm new_cdb =
     (let self0 = \<lparr>xcvr_eeprom = e, vdm = None, cdb = None, cdb_log = []\<rparr>;
          self1 = self0\<lparr>vdm := (if \<not> is_flat_memory self0 then Some new_vdm else None)\<rparr>
      in self1\<lparr>cdb := (if \<not> is_flat_memory self1 then Some new_cdb else None)\<rparr>)"

section \<open>Loopback\<close>

abbreviation LOOPBACK_CAPABILITY :: string where "LOOPBACK_CAPABILITY \<equiv> ''LOOPBACK_CAPABILITY''"
abbreviation MEDIA_INPUT_LOOPBACK :: string where "MEDIA_INPUT_LOOPBACK \<equiv> ''MEDIA_INPUT_LOOPBACK''"
abbreviation MEDIA_OUTPUT_LOOPBACK :: string where "MEDIA_OUTPUT_LOOPBACK \<equiv> ''MEDIA_OUTPUT_LOOPBACK''"
abbreviation HOST_INPUT_LOOPBACK :: string where "HOST_INPUT_LOOPBACK \<equiv> ''HOST_INPUT_LOOPBACK''"
abbreviation HOST_OUTPUT_LOOPBACK :: string where "HOST_OUTPUT_LOOPBACK \<equiv> ''HOST_OUTPUT_LOOPBACK''"

text \<open>Truth value of a Python object, as \<^verbatim>\<open>if x\<close>, \<^verbatim>\<open>not x\<close> and \<^verbatim>\<open>x or y\<close> test it.\<close>

fun py_truthy :: "pyval \<Rightarrow> bool" where
  "py_truthy PNone = False"
| "py_truthy (PBool b) = b"
| "py_truthy (PInt i) = (i \<noteq> 0)"
| "py_truthy (PFloat r) = (r \<noteq> 0)"
| "py_truthy (PNonFinite n) = True"
| "py_truthy (PStr s) = (s \<noteq> [])"
| "py_truthy (PDict d) = (d \<noteq> [])"

text \<open>\<^verbatim>\<open>bool((v >> k) & 0x1)\<close>: bit \<open>k\<close> of an \<^verbatim>\<open>int\<close> or \<^verbatim>\<open>bool\<close>; \<^verbatim>\<open>TypeError\<close> otherwise.\<close>

fun py_bit :: "pyval \<Rightarrow> nat \<Rightarrow> exn + bool" where
  "py_bit (PBool b) k = Inr (bit (if b then 1 else 0 :: int) k)"
| "py_bit (PInt i) k = Inr (bit i k)"
| "py_bit _ k = Inl TypeError"

text \<open>
  The format specs \<^verbatim>\<open>:#x\<close> and \<^verbatim>\<open>:x\<close> inside an f-string: accepted for \<^verbatim>\<open>int\<close> and \<^verbatim>\<open>bool\<close>,
  \<^verbatim>\<open>ValueError\<close> for \<^verbatim>\<open>float\<close> and \<^verbatim>\<open>str\<close>, \<^verbatim>\<open>TypeError\<close> for the others. The text goes to
  the logger only, so the model keeps whether formatting raises.
\<close>

fun py_format_hex :: "pyval \<Rightarrow> exn + unit" where
  "py_format_hex (PBool b) = Inr ()"
| "py_format_hex (PInt i) = Inr ()"
| "py_format_hex (PFloat r) = Inl ValueError"
| "py_format_hex (PNonFinite n) = Inl ValueError"
| "py_format_hex (PStr s) = Inl ValueError"
| "py_format_hex _ = Inl TypeError"

record loopback_capability =
  simultaneous_host_media_loopback_supported :: bool
  per_lane_media_loopback_supported :: bool
  per_lane_host_loopback_supported :: bool
  host_side_input_loopback_supported :: bool
  host_side_output_loopback_supported :: bool
  media_side_input_loopback_supported :: bool
  media_side_output_loopback_supported :: bool

text \<open>\<^verbatim>\<open>get_loopback_capability\<close>: \<^verbatim>\<open>None\<close> for flat memory or a failed read, else the seven bits.\<close>

definition get_loopback_capability :: "cmis_api \<Rightarrow> exn + loopback_capability option" where
  "get_loopback_capability self =
     (if is_flat_memory self then Inr None
      else let allowed_loopback_result = rd self LOOPBACK_CAPABILITY in
        if allowed_loopback_result = PNone then Inr None
        else
          ebind (py_bit allowed_loopback_result 6) (\<lambda>b6.
          ebind (py_bit allowed_loopback_result 5) (\<lambda>b5.
          ebind (py_bit allowed_loopback_result 4) (\<lambda>b4.
          ebind (py_bit allowed_loopback_result 3) (\<lambda>b3.
          ebind (py_bit allowed_loopback_result 2) (\<lambda>b2.
          ebind (py_bit allowed_loopback_result 1) (\<lambda>b1.
          ebind (py_bit allowed_loopback_result 0) (\<lambda>b0.
            Inr (Some \<lparr>simultaneous_host_media_loopback_supported = b6,
                       per_lane_media_loopback_supported = b5,
                       per_lane_host_loopback_supported = b4,
                       host_side_input_loopback_supported = b3,
                       host_side_output_loopback_supported = b2,
                       media_side_input_loopback_supported = b1,
                       media_side_output_loopback_supported = b0\<rparr>)))))))))"

text \<open>
  The four setters. Each returns \<^verbatim>\<open>False\<close> before any write when the capability is
  unavailable, the direction is unsupported, per-lane control is unsupported and the mask
  is not \<^verbatim>\<open>0xff\<close>, or simultaneous host and media loopback is unsupported while the other
  side has a loopback value set. Otherwise the register is read, the mask is or-ed in or
  and-ed out, and the result of the write is returned.
\<close>

definition set_host_input_loopback :: "cmis_api \<Rightarrow> int \<Rightarrow> bool \<Rightarrow> exn + bool \<times> cmis_api" where
  "set_host_input_loopback self lane_mask enable =
     ebind (get_loopback_capability self) (\<lambda>cap.
       case cap of
         None \<Rightarrow> Inr (False, self)
       | Some loopback_capability \<Rightarrow>
           if \<not> host_side_input_loopback_supported loopback_capability then Inr (False, self)
           else if \<not> per_lane_host_loopback_supported loopback_capability \<and> lane_mask \<noteq> 0xff
             then Inr (False, self)
           else
             ebind (if \<not> simultaneous_host_media_loopback_supported loopback_capability
                    then (let media_input_val = rd self MEDIA_INPUT_LOOPBACK;
                              media_output_val = rd self MEDIA_OUTPUT_LOOPBACK
                          in if py_truthy media_input_val \<or> py_truthy media_output_val
                             then ebind (py_format_hex media_input_val) (\<lambda>_.
                                  ebind (py_format_hex media_output_val) (\<lambda>_. Inr True))
                             else Inr False)
                    else Inr False) (\<lambda>refused.
               if refused then Inr (False, self)
               else let host_input_val = rd self HOST_INPUT_LOOPBACK in
                 if enable
                 then ebind (py_or_int host_input_val lane_mask)
                        (\<lambda>v. Inr (wr self HOST_INPUT_LOOPBACK v))
                 else ebind (py_and_int host_input_val (NOT lane_mask))
                        (\<lambda>v. Inr (wr self HOST_INPUT_LOOPBACK v))))"

definition set_host_output_loopback :: "cmis_api \<Rightarrow> int \<Rightarrow> bool \<Rightarrow> exn + bool \<times> cmis_api" where
  "set_host_output_loopback self lane_mask enable =
     ebind (get_loopback_capability self) (\<lambda>cap.
       case cap of
         None \<Rightarrow> Inr (False, self)
       | Some loopback_capability \<Rightarrow>
           if \<not> host_side_output_loopback_supported loopback_capability then Inr (False, self)
           else if \<not> per_lane_host_loopback_supported loopback_capability \<and> lane_mask \<noteq> 0xff
             then Inr (False, self)
           else
             ebind (if \<not> simultaneous_host_media_loopback_supported loopback_capability
                    then (let media_input_val = rd self MEDIA_INPUT_LOOPBACK;
                              media_output_val = rd self MEDIA_OUTPUT_LOOPBACK
                          in if py_truthy media_input_val \<or> py_truthy media_output_val
                             then ebind (py_format_hex media_input_val) (\<lambda>_.
                                  ebind (py_format_hex media_output_val) (\<lambda>_. Inr True))
                             else Inr False)
                    else Inr False) (\<lambda>refused.
               if refused then Inr (False, self)
               else let host_output_val = rd self HOST_OUTPUT_LOOPBACK in
                 if enable
                 then ebind (py_or_int host_output_val lane_mask)
                        (\<lambda>v. Inr (wr self HOST_OUTPUT_LOOPBACK v))
                 else ebind (py_and_int host_output_val (NOT lane_mask))
                        (\<lambda>v. Inr (wr self HOST_OUTPUT_LOOPBACK v))))"

definition set_media_input_loopback :: "cmis_api \<Rightarrow> int \<Rightarrow> bool \<Rightarrow> exn + bool \<times> cmis_api" where
  "set_media_input_loopback self lane_mask enable =
     ebind (get_loopback_capability self) (\<lambda>cap.
       case cap of
         None \<Rightarrow> Inr (False, self)
       | Some loopback_capability \<Rightarrow>
           if \<not> media_side_input_loopback_supported loopback_capability then Inr (False, self)
           else if \<not> per_lane_media_loopback_supported loopback_capability \<and> lane_mask \<noteq> 0xff
             then Inr (False, self)
           else
             ebind (if \<not> simultaneous_host_media_loopback_supported loopback_capability
                    then (let host_input_val = rd self HOST_INPUT_LOOPBACK;
                              host_output_val = rd self HOST_OUTPUT_LOOPBACK
                          in if py_truthy host_input_val \<or> py_truthy host_output_val
                             then ebind (py_format_hex host_input_val) (\<lambda>_.
                                  ebind (py_format_hex host_output_val) (\<lambda>_. Inr True))
                             else Inr False)
                    else Inr False) (\<lambda>refused.
               if refused then Inr (False, self)
               else let media_input_val = rd self MEDIA_INPUT_LOOPBACK in
                 if enable
                 then ebind (py_or_int media_input_val lane_mask)
                        (\<lambda>v. Inr (wr self MEDIA_INPUT_LOOPBACK v))
                 else ebind (py_and_int media_input_val (NOT lane_mask))
                        (\<lambda>v. Inr (wr self MEDIA_INPUT_LOOPBACK v))))"

definition set_media_output_loopback :: "cmis_api \<Rightarrow> int \<Rightarrow> bool \<Rightarrow> exn + bool \<times> cmis_api" where
  "set_media_output_loopback self lane_mask enable =
     ebind (get_loopback_capability self) (\<lambda>cap.
       case cap of
         None \<Rightarrow> Inr (False, self)
       | Some loopback_capability \<Rightarrow>
           if \<not> media_side_output_loopback_supported loopback_capability then Inr (False, self)
           else if \<not> per_lane_media_loopback_supported loopback_capability \<and> lane_mask \<noteq> 0xff
             then Inr (False, self)
           else
             ebind (if \<not> simultaneous_host_media_loopback_supported loopback_capability
                    then (let host_input_val = rd self HOST_INPUT_LOOPBACK;
                              host_output_val = rd self HOST_OUTPUT_LOOPBACK
                          in if py_truthy host_input_val \<or> py_truthy host_output_val
                             then ebind (py_format_hex host_input_val) (\<lambda>_.
                                  ebind (py_format_hex host_output_val) (\<lambda>_. Inr True))
                             else Inr False)
                    else Inr False) (\<lambda>refused.
               if refused then Inr (False, self)
               else let media_output_val = rd self MEDIA_OUTPUT_LOOPBACK in
                 if enable
                 then ebind (py_or_int media_output_val lane_mask)
                        (\<lambda>v. Inr (wr self MEDIA_OUTPUT_LOOPBACK v))
                 else ebind (py_and_int media_output_val (NOT lane_mask))
                        (\<lambda>v. Inr (wr self MEDIA_OUTPUT_LOOPBACK v))))"

section \<open>Numbers, strings and what lies outside the driver\<close>

text \<open>
  A float on its own: \<open>Finite r\<close> or one of the three non-finite values. \<open>float_val\<close> is the
  same float as a \<open>pyval\<close>.
\<close>

datatype pyfloat = Finite rat | NonFinite nonfinite

fun float_val :: "pyfloat \<Rightarrow> pyval" where
  "float_val (Finite r) = PFloat r"
| "float_val (NonFinite n) = PNonFinite n"

text \<open>
  Rounding to the nearest double, ties to the even significand, which is how Python
  converts an \<^verbatim>\<open>int\<close> to a \<^verbatim>\<open>float\<close> and rounds a product. \<open>bit_length\<close> is \<^verbatim>\<open>int.bit_length\<close>
  of a positive integer;
  \<open>floor_log2 r\<close> is the exponent \<open>e\<close> with \<open>2^e \<le> |r| < 2^(e+1)\<close> for \<open>r \<noteq> 0\<close>; \<open>ulp e\<close> is the
  spacing of the doubles of exponent \<open>e\<close> (53 significant bits, subnormal below
  \<open>2^-1022\<close>). A rounded magnitude of \<open>2^1024\<close> or more is an overflow.
\<close>

function bit_length :: "int \<Rightarrow> nat" where
  "bit_length n = (if n \<le> 0 then 0 else Suc (bit_length (n div 2)))"
  by pat_completeness auto
termination
  by (relation "measure nat") auto

declare bit_length.simps [simp del]

definition floor_log2 :: "rat \<Rightarrow> int" where
  "floor_log2 r =
     (if 1 \<le> \<bar>r\<bar> then int (bit_length \<lfloor>\<bar>r\<bar>\<rfloor>) - 1
      else - int (bit_length (\<lceil>1 / \<bar>r\<bar>\<rceil> - 1)))"

definition round_half_even :: "rat \<Rightarrow> int" where
  "round_half_even x =
     (let f = \<lfloor>x\<rfloor>; d = x - of_int f
      in if d < 1 / 2 then f
         else if 1 / 2 < d then f + 1
         else if even f then f else f + 1)"

definition ulp :: "int \<Rightarrow> rat" where
  "ulp e = (let k = max e (- 1022) - 52
            in if 0 \<le> k then 2 ^ nat k else 1 / 2 ^ nat (- k))"

definition round_double :: "rat \<Rightarrow> pyfloat" where
  "round_double r =
     (if r = 0 then Finite 0
      else let q = ulp (floor_log2 r);
               v = of_int (round_half_even (r / q)) * q
           in if 2 ^ 1024 \<le> \<bar>v\<bar> then NonFinite (if 0 < r then PosInf else NegInf)
              else Finite v)"

text \<open>
  \<^verbatim>\<open>a * b\<close> on two floats: the rounded product; \<^verbatim>\<open>nan\<close> from a \<^verbatim>\<open>nan\<close> and from an infinity
  times zero.
\<close>

fun float_mul :: "pyfloat \<Rightarrow> pyfloat \<Rightarrow> pyfloat" where
  "float_mul (Finite a) (Finite b) = round_double (a * b)"
| "float_mul (NonFinite NaN) y = NonFinite NaN"
| "float_mul x (NonFinite NaN) = NonFinite NaN"
| "float_mul (NonFinite m) (Finite b) =
     (if b = 0 then NonFinite NaN
      else NonFinite (if (m = PosInf) = (0 < b) then PosInf else NegInf))"
| "float_mul (Finite a) (NonFinite n) =
     (if a = 0 then NonFinite NaN
      else NonFinite (if (n = PosInf) = (0 < a) then PosInf else NegInf))"
| "float_mul (NonFinite m) (NonFinite n) = NonFinite (if m = n then PosInf else NegInf)"

text \<open>\<^verbatim>\<open>f <= k\<close> for a float \<open>f\<close> and an integer \<open>k\<close>: exact, and false for \<^verbatim>\<open>nan\<close>.\<close>

fun float_le_int :: "pyfloat \<Rightarrow> int \<Rightarrow> bool" where
  "float_le_int (Finite r) k = (r \<le> of_int k)"
| "float_le_int (NonFinite n) k = (n = NegInf)"

text \<open>
  Modelled from the spec: \<open>py_ext\<close> gathers what the driver calls but this model does not
  compute. \<open>mw_to_dbm\<close> is a method of the base class \<^verbatim>\<open>XcvrApi\<close> (\<^verbatim>\<open>xcvr_api.py\<close>, not part
  of the sources). The others are Python built-ins whose results depend on parsing or
  rendering a float or on \<^verbatim>\<open>repr\<close>: \<open>fmt3 v\<close> is \<^verbatim>\<open>float("{:.3f}".format(v))\<close>, \<open>float_of_str s\<close> is
  \<^verbatim>\<open>float(s)\<close> on a string (\<open>None\<close> when it raises \<^verbatim>\<open>ValueError\<close>), \<open>str_other v\<close> is \<^verbatim>\<open>str(v)\<close>
  for a float or a dictionary, \<open>str_appl_advt\<close> is \<^verbatim>\<open>str\<close> of an application-advertisement
  dictionary, and \<open>pow2_float r\<close> is \<^verbatim>\<open>2**r\<close> for a finite float exponent (\<^verbatim>\<open>OverflowError\<close>
  when the power is out of range).
\<close>

type_synonym pydict = "(string \<times> pyval) list"

record py_ext =
  mw_to_dbm :: "pyval \<Rightarrow> exn + pyval"
  fmt3 :: "pyval \<Rightarrow> exn + pyval"
  float_of_str :: "string \<Rightarrow> pyfloat option"
  str_other :: "pyval \<Rightarrow> string"
  str_appl_advt :: "(int \<times> pydict) list \<Rightarrow> string"
  pow2_float :: "rat \<Rightarrow> exn + rat"

text \<open>\<^verbatim>\<open>str(v)\<close>, also what \<^verbatim>\<open>%s\<close> inserts.\<close>

definition py_str :: "py_ext \<Rightarrow> pyval \<Rightarrow> string" where
  "py_str py v =
     (case v of
        PNone \<Rightarrow> ''None''
      | PBool b \<Rightarrow> (if b then ''True'' else ''False'')
      | PInt i \<Rightarrow> str_int i
      | PStr s \<Rightarrow> s
      | _ \<Rightarrow> str_other py v)"

text \<open>
  \<^verbatim>\<open>float(v)\<close>: an \<^verbatim>\<open>int\<close> is rounded to the nearest double, \<^verbatim>\<open>OverflowError\<close> when it is too
  large; a float is returned as it is; a string is parsed.
\<close>

definition float_of_int :: "int \<Rightarrow> exn + pyfloat" where
  "float_of_int i =
     (case round_double (of_int i) of
        Finite r \<Rightarrow> Inr (Finite r)
      | NonFinite n \<Rightarrow> Inl OverflowError)"

definition py_float :: "py_ext \<Rightarrow> pyval \<Rightarrow> exn + pyfloat" where
  "py_float py v =
     (case v of
        PBool b \<Rightarrow> Inr (Finite (if b then 1 else 0))
      | PInt i \<Rightarrow> float_of_int i
      | PFloat r \<Rightarrow> Inr (Finite r)
      | PNonFinite n \<Rightarrow> Inr (NonFinite n)
      | PStr s \<Rightarrow> (case float_of_str py s of None \<Rightarrow> Inl ValueError | Some f \<Rightarrow> Inr f)
      | _ \<Rightarrow> Inl TypeError)"

text \<open>\<^verbatim>\<open>v < k\<close> for an integer literal \<open>k\<close>.\<close>

fun py_lt_int :: "pyval \<Rightarrow> int \<Rightarrow> exn + bool" where
  "py_lt_int (PBool b) k = Inr ((if b then 1 else 0) < k)"
| "py_lt_int (PInt i) k = Inr (i < k)"
| "py_lt_int (PFloat r) k = Inr (r < of_int k)"
| "py_lt_int (PNonFinite n) k = Inr (n = NegInf)"
| "py_lt_int _ k = Inl TypeError"

text \<open>
  \<^verbatim>\<open>2**v\<close>: an \<^verbatim>\<open>int\<close> for a non-negative integer exponent. A negative integer exponent is
  converted to a float first (\<^verbatim>\<open>OverflowError\<close> when it is too large) and the power is a
  float: \<open>2^i\<close> exactly down to the smallest subnormal \<open>2^-1074\<close>, zero below.
\<close>

definition py_pow2 :: "py_ext \<Rightarrow> pyval \<Rightarrow> exn + pyval" where
  "py_pow2 py v =
     (case v of
        PBool b \<Rightarrow> Inr (PInt (if b then 2 else 1))
      | PInt i \<Rightarrow>
          if 0 \<le> i then Inr (PInt (2 ^ nat i))
          else ebind (float_of_int i) (\<lambda>f.
                 Inr (PFloat (if - 1074 \<le> i then 1 / 2 ^ nat (- i) else 0)))
      | PFloat r \<Rightarrow> ebind (pow2_float py r) (\<lambda>p. Inr (PFloat p))
      | PNonFinite n \<Rightarrow> Inr (if n = NegInf then PFloat 0 else PNonFinite n)
      | _ \<Rightarrow> Inl TypeError)"

text \<open>
  \<^verbatim>\<open>v * scale\<close> for a number \<open>scale\<close>, as \<^verbatim>\<open>tx_bias[key] *= scale\<close> and
  \<^verbatim>\<open>thresh[...] * tx_bias_scale\<close> compute it: the product of two numbers, or a string
  repeated by an integer. \<open>nonfinite_times\<close> is an infinity or \<^verbatim>\<open>nan\<close> times a finite
  number.
\<close>

definition nonfinite_times :: "nonfinite \<Rightarrow> rat \<Rightarrow> pyval" where
  "nonfinite_times n x = float_val (float_mul (NonFinite n) (Finite x))"

fun py_mul :: "pyval \<Rightarrow> pyval \<Rightarrow> exn + pyval" where
  "py_mul (PInt a) (PInt k) = Inr (PInt (a * k))"
| "py_mul (PInt a) (PBool k) = Inr (PInt (a * (if k then 1 else 0)))"
| "py_mul (PInt a) (PFloat r) = Inr (PFloat (of_int a * r))"
| "py_mul (PBool a) (PInt k) = Inr (PInt ((if a then 1 else 0) * k))"
| "py_mul (PBool a) (PBool k) = Inr (PInt ((if a then 1 else 0) * (if k then 1 else 0)))"
| "py_mul (PBool a) (PFloat r) = Inr (PFloat ((if a then 1 else 0) * r))"
| "py_mul (PFloat a) (PInt k) = Inr (PFloat (a * of_int k))"
| "py_mul (PFloat a) (PBool k) = Inr (PFloat (a * (if k then 1 else 0)))"
| "py_mul (PFloat a) (PFloat r) = Inr (PFloat (a * r))"
| "py_mul (PNonFinite n) (PInt k) = Inr (nonfinite_times n (of_int k))"
| "py_mul (PNonFinite n) (PBool k) = Inr (nonfinite_times n (if k then 1 else 0))"
| "py_mul (PNonFinite n) (PFloat r) = Inr (nonfinite_times n r)"
| "py_mul (PInt a) (PNonFinite n) = Inr (nonfinite_times n (of_int a))"
| "py_mul (PBool a) (PNonFinite n) = Inr (nonfinite_times n (if a then 1 else 0))"
| "py_mul (PFloat a) (PNonFinite n) = Inr (nonfinite_times n a)"
| "py_mul (PNonFinite m) (PNonFinite n) = Inr (float_val (float_mul (NonFinite m) (NonFinite n)))"
| "py_mul (PStr s) (PInt k) = Inr (PStr (concat (replicate (nat k) s)))"
| "py_mul (PStr s) (PBool k) = Inr (PStr (if k then s else []))"
| "py_mul _ _ = Inl TypeError"

text \<open>
  \<^verbatim>\<open>xs[i]\<close> on a sequence: an index counted from the end when negative, \<^verbatim>\<open>IndexError\<close> out
  of range.
\<close>

definition py_index :: "'a list \<Rightarrow> int \<Rightarrow> exn + 'a" where
  "py_index xs i =
     (if 0 \<le> i
      then (if i < int (length xs) then Inr (xs ! nat i) else Inl IndexError)
      else (if - i \<le> int (length xs) then Inr (xs ! nat (int (length xs) + i))
            else Inl IndexError))"

text \<open>
  \<^verbatim>\<open>c[k]\<close> for a string key \<open>k\<close>: a dictionary lookup (\<^verbatim>\<open>KeyError\<close> when the key is absent),
  \<^verbatim>\<open>TypeError\<close> for any other value (a string takes integer indices only).
\<close>

fun py_getitem :: "pyval \<Rightarrow> string \<Rightarrow> exn + pyval" where
  "py_getitem (PDict d) k = (case map_of d k of None \<Rightarrow> Inl KeyError | Some v \<Rightarrow> Inr v)"
| "py_getitem _ k = Inl TypeError"

text \<open>\<open>dict_set\<close> is \<^verbatim>\<open>d[k] = v\<close> on a dictionary with string keys.\<close>

fun dict_set :: "(string \<times> 'v) list \<Rightarrow> string \<Rightarrow> 'v \<Rightarrow> (string \<times> 'v) list" where
  "dict_set [] k v = [(k, v)]"
| "dict_set ((k', v') # d) k v = (if k' = k then (k, v) # d else (k', v') # dict_set d k v)"

abbreviation NA :: pyval where "NA \<equiv> PStr ''N/A''"

section \<open>Datapath-init duration\<close>

abbreviation DP_PATH_INIT_DURATION :: string where "DP_PATH_INIT_DURATION \<equiv> ''DP_PATH_INIT_DURATION''"

definition DATAPATH_INIT_DURATION_MULTIPLIER :: int where
  "DATAPATH_INIT_DURATION_MULTIPLIER = 10"

definition DATAPATH_INIT_DURATION_OVERRIDE_THRESHOLD :: int where
  "DATAPATH_INIT_DURATION_OVERRIDE_THRESHOLD = 1000"

text \<open>
  \<^verbatim>\<open>get_datapath_init_duration\<close>: the integer \<^verbatim>\<open>0\<close> for flat memory or a failed read, else
  \<^verbatim>\<open>float(duration)\<close>, multiplied by the integer ten (converted to a float for the
  product) when it is at most the threshold.
\<close>

definition get_datapath_init_duration :: "py_ext \<Rightarrow> cmis_api \<Rightarrow> exn + pyval" where
  "get_datapath_init_duration py self =
     (if is_flat_memory self then Inr (PInt 0)
      else let duration = rd self DP_PATH_INIT_DURATION in
        if duration = PNone then Inr (PInt 0)
        else ebind (py_float py duration) (\<lambda>value.
          if float_le_int value DATAPATH_INIT_DURATION_OVERRIDE_THRESHOLD
          then ebind (float_of_int DATAPATH_INIT_DURATION_MULTIPLIER) (\<lambda>multiplier.
                 Inr (float_val (float_mul value multiplier)))
          else Inr (float_val value)))"

section \<open>TX bias and thresholds\<close>

abbreviation TX_BIAS_SUPPORT_FIELD :: string where "TX_BIAS_SUPPORT_FIELD \<equiv> ''TX_BIAS_SUPPORT_FIELD''"
abbreviation TX_BIAS_SCALE :: string where "TX_BIAS_SCALE \<equiv> ''TX_BIAS_SCALE''"
abbreviation TX_BIAS_FIELD :: string where "TX_BIAS_FIELD \<equiv> ''TX_BIAS_FIELD''"
abbreviation THRESHOLDS_FIELD :: string where "THRESHOLDS_FIELD \<equiv> ''THRESHOLDS_FIELD''"
abbreviation TEMP_HIGH_ALARM_FIELD :: string where "TEMP_HIGH_ALARM_FIELD \<equiv> ''TEMP_HIGH_ALARM_FIELD''"
abbreviation TEMP_LOW_ALARM_FIELD :: string where "TEMP_LOW_ALARM_FIELD \<equiv> ''TEMP_LOW_ALARM_FIELD''"
abbreviation TEMP_HIGH_WARNING_FIELD :: string where "TEMP_HIGH_WARNING_FIELD \<equiv> ''TEMP_HIGH_WARNING_FIELD''"
abbreviation TEMP_LOW_WARNING_FIELD :: string where "TEMP_LOW_WARNING_FIELD \<equiv> ''TEMP_LOW_WARNING_FIELD''"
abbreviation VOLTAGE_HIGH_ALARM_FIELD :: string where "VOLTAGE_HIGH_ALARM_FIELD \<equiv> ''VOLTAGE_HIGH_ALARM_FIELD''"
abbreviation VOLTAGE_LOW_ALARM_FIELD :: string where "VOLTAGE_LOW_ALARM_FIELD \<equiv> ''VOLTAGE_LOW_ALARM_FIELD''"
abbreviation VOLTAGE_HIGH_WARNING_FIELD :: string where "VOLTAGE_HIGH_WARNING_FIELD \<equiv> ''VOLTAGE_HIGH_WARNING_FIELD''"
abbreviation VOLTAGE_LOW_WARNING_FIELD :: string where "VOLTAGE_LOW_WARNING_FIELD \<equiv> ''VOLTAGE_LOW_WARNING_FIELD''"
abbreviation RX_POWER_HIGH_ALARM_FIELD :: string where "RX_POWER_HIGH_ALARM_FIELD \<equiv> ''RX_POWER_HIGH_ALARM_FIELD''"
abbreviation RX_POWER_LOW_ALARM_FIELD :: string where "RX_POWER_LOW_ALARM_FIELD \<equiv> ''RX_POWER_LOW_ALARM_FIELD''"
abbreviation RX_POWER_HIGH_WARNING_FIELD :: string where "RX_POWER_HIGH_WARNING_FIELD \<equiv> ''RX_POWER_HIGH_WARNING_FIELD''"
abbreviation RX_POWER_LOW_WARNING_FIELD :: string where "RX_POWER_LOW_WARNING_FIELD \<equiv> ''RX_POWER_LOW_WARNING_FIELD''"
abbreviation TX_POWER_HIGH_ALARM_FIELD :: string where "TX_POWER_HIGH_ALARM_FIELD \<equiv> ''TX_POWER_HIGH_ALARM_FIELD''"
abbreviation TX_POWER_LOW_ALARM_FIELD :: string where "TX_POWER_LOW_ALARM_FIELD \<equiv> ''TX_POWER_LOW_ALARM_FIELD''"
abbreviation TX_POWER_HIGH_WARNING_FIELD :: string where "TX_POWER_HIGH_WARNING_FIELD \<equiv> ''TX_POWER_HIGH_WARNING_FIELD''"
abbreviation TX_POWER_LOW_WARNING_FIELD :: string where "TX_POWER_LOW_WARNING_FIELD \<equiv> ''TX_POWER_LOW_WARNING_FIELD''"
abbreviation TX_BIAS_HIGH_ALARM_FIELD :: string where "TX_BIAS_HIGH_ALARM_FIELD \<equiv> ''TX_BIAS_HIGH_ALARM_FIELD''"
abbreviation TX_BIAS_LOW_ALARM_FIELD :: string where "TX_BIAS_LOW_ALARM_FIELD \<equiv> ''TX_BIAS_LOW_ALARM_FIELD''"
abbreviation TX_BIAS_HIGH_WARNING_FIELD :: string where "TX_BIAS_HIGH_WARNING_FIELD \<equiv> ''TX_BIAS_HIGH_WARNING_FIELD''"
abbreviation TX_BIAS_LOW_WARNING_FIELD :: string where "TX_BIAS_LOW_WARNING_FIELD \<equiv> ''TX_BIAS_LOW_WARNING_FIELD''"
abbreviation AUX_MON_TYPE :: string where "AUX_MON_TYPE \<equiv> ''AUX_MON_TYPE''"
abbreviation AUX2_MON :: string where "AUX2_MON \<equiv> ''AUX2_MON''"
abbreviation AUX2_HIGH_ALARM :: string where "AUX2_HIGH_ALARM \<equiv> ''AUX2_HIGH_ALARM''"
abbreviation AUX2_LOW_ALARM :: string where "AUX2_LOW_ALARM \<equiv> ''AUX2_LOW_ALARM''"
abbreviation AUX2_HIGH_WARN :: string where "AUX2_HIGH_WARN \<equiv> ''AUX2_HIGH_WARN''"
abbreviation AUX2_LOW_WARN :: string where "AUX2_LOW_WARN \<equiv> ''AUX2_LOW_WARN''"
abbreviation AUX3_MON :: string where "AUX3_MON \<equiv> ''AUX3_MON''"
abbreviation AUX3_HIGH_ALARM :: string where "AUX3_HIGH_ALARM \<equiv> ''AUX3_HIGH_ALARM''"
abbreviation AUX3_LOW_ALARM :: string where "AUX3_LOW_ALARM \<equiv> ''AUX3_LOW_ALARM''"
abbreviation AUX3_HIGH_WARN :: string where "AUX3_HIGH_WARN \<equiv> ''AUX3_HIGH_WARN''"
abbreviation AUX3_LOW_WARN :: string where "AUX3_LOW_WARN \<equiv> ''AUX3_LOW_WARN''"

text \<open>Running a step over a list, left to right, stopping at the first raise.\<close>

fun emap :: "('a \<Rightarrow> exn + 'b) \<Rightarrow> 'a list \<Rightarrow> exn + 'b list" where
  "emap f [] = Inr []"
| "emap f (x # xs) = ebind (f x) (\<lambda>y. ebind (emap f xs) (\<lambda>ys. Inr (y # ys)))"

text \<open>A dictionary display \<^verbatim>\<open>{k1: e1, k2: e2, ...}\<close>: the entries are evaluated in order.\<close>

fun edict :: "(string \<times> (exn + pyval)) list \<Rightarrow> exn + pydict" where
  "edict [] = Inr []"
| "edict ((k, m) # kms) = ebind m (\<lambda>v. ebind (edict kms) (\<lambda>d. Inr ((k, v) # d)))"

text \<open>\<^verbatim>\<open>d.items()\<close>: each key once, with its live value.\<close>

definition dict_items :: "pydict \<Rightarrow> pydict" where
  "dict_items d =
     map (\<lambda>k. (k, case map_of d k of None \<Rightarrow> PNone | Some v \<Rightarrow> v)) (remdups (map fst d))"

definition na_lanes :: "pyval list" where
  "na_lanes = replicate NUM_CHANNELS NA"

text \<open>\<^verbatim>\<open>not self.is_flat_memory() and self.xcvr_eeprom.read(...)\<close>: \<^verbatim>\<open>False\<close> or the value read.\<close>

definition get_tx_bias_support :: "cmis_api \<Rightarrow> pyval" where
  "get_tx_bias_support self =
     (if is_flat_memory self then PBool False else rd self TX_BIAS_SUPPORT_FIELD)"

text \<open>
  \<^verbatim>\<open>2**scale_raw if scale_raw < 3 else 1\<close>, the expression both \<^verbatim>\<open>get_tx_bias\<close> and
  \<^verbatim>\<open>get_transceiver_threshold_info\<close> apply to the raw scale once it is known not to be
  \<^verbatim>\<open>None\<close>.
\<close>

definition tx_bias_scale_of :: "py_ext \<Rightarrow> pyval \<Rightarrow> exn + pyval" where
  "tx_bias_scale_of py scale_raw =
     ebind (py_lt_int scale_raw 3) (\<lambda>lt. if lt then py_pow2 py scale_raw else Inr (PInt 1))"

text \<open>
  \<^verbatim>\<open>get_tx_bias\<close>: \<^verbatim>\<open>None\<close> when the support read fails, eight \<^verbatim>\<open>'N/A'\<close> when unsupported or when
  the scale or the bias read fails; otherwise every value of the bias dictionary is
  multiplied by the scale and the eight lane values are returned. The result is \<^verbatim>\<open>None\<close>
  (\<open>None\<close> here) or a list of eight values.
\<close>

definition get_tx_bias :: "py_ext \<Rightarrow> cmis_api \<Rightarrow> exn + pyval list option" where
  "get_tx_bias py self =
     (let tx_bias_support = get_tx_bias_support self in
      if tx_bias_support = PNone then Inr None
      else if \<not> py_truthy tx_bias_support then Inr (Some na_lanes)
      else let scale_raw = rd self TX_BIAS_SCALE in
        if scale_raw = PNone then Inr (Some na_lanes)
        else ebind (tx_bias_scale_of py scale_raw) (\<lambda>scale.
          let tx_bias = rd self TX_BIAS_FIELD in
          if tx_bias = PNone then Inr (Some na_lanes)
          else case tx_bias of
            PDict d \<Rightarrow>
              ebind (emap (\<lambda>(key, value). ebind (py_mul value scale) (\<lambda>v. Inr (key, v)))
                       (dict_items d)) (\<lambda>d'.
              ebind (emap (\<lambda>i. py_getitem (PDict d') (''LaserBiasTx'' @ str_nat i @ ''Field''))
                       [1..<NUM_CHANNELS + 1]) (\<lambda>l. Inr (Some l)))
          | _ \<Rightarrow> Inl AttributeError))"

text \<open>
  \<^verbatim>\<open>get_aux_mon_type\<close>, \<^verbatim>\<open>_get_laser_temp_threshold\<close> and \<^verbatim>\<open>get_laser_temperature\<close>. The
  \<^verbatim>\<open>try\<close> of \<^verbatim>\<open>get_laser_temperature\<close> encloses the call of \<^verbatim>\<open>get_aux_mon_type\<close> and the
  unpacking of its result, so a \<^verbatim>\<open>TypeError\<close> from either yields the default dictionary.
\<close>

definition get_aux_mon_type :: "cmis_api \<Rightarrow> exn + (int \<times> int \<times> int) option" where
  "get_aux_mon_type self =
     (let result = (if \<not> is_flat_memory self then rd self AUX_MON_TYPE else PNone) in
      if result = PNone then Inr None
      else ebind (py_bit result 0) (\<lambda>aux1_mon_type.
           ebind (py_bit result 1) (\<lambda>aux2_mon_type.
           ebind (py_bit result 2) (\<lambda>aux3_mon_type.
             Inr (Some (if aux1_mon_type then 1 else 0,
                        if aux2_mon_type then 1 else 0,
                        if aux3_mon_type then 1 else 0))))))"

definition get_laser_temp_threshold :: "cmis_api \<Rightarrow> string \<Rightarrow> exn + pyval" where
  "get_laser_temp_threshold self field =
     (case rd self field of
        PNone \<Rightarrow> Inr NA
      | PBool b \<Rightarrow> Inr (PFloat ((if b then 1 else 0) / 256))
      | PInt i \<Rightarrow> Inr (PFloat (of_int i / 256))
      | PFloat r \<Rightarrow> Inr (PFloat (r / 256))
      | PNonFinite n \<Rightarrow> Inr (PNonFinite n)
      | _ \<Rightarrow> Inl TypeError)"

definition laser_temp_default :: pydict where
  "laser_temp_default =
     [(''monitor value'', NA), (''high alarm'', NA), (''low alarm'', NA),
      (''high warn'', NA), (''low warn'', NA)]"

definition get_laser_temperature :: "cmis_api \<Rightarrow> exn + pydict" where
  "get_laser_temperature self =
     (if is_flat_memory self then Inr laser_temp_default
      else case get_aux_mon_type self of
        Inl e \<Rightarrow> (if e = TypeError then Inr laser_temp_default else Inl e)
      | Inr None \<Rightarrow> Inr laser_temp_default
      | Inr (Some (aux1_mon_type, aux2_mon_type, aux3_mon_type)) \<Rightarrow>
          if aux2_mon_type = 0 then
            edict [(''monitor value'', get_laser_temp_threshold self AUX2_MON),
                   (''high alarm'', get_laser_temp_threshold self AUX2_HIGH_ALARM),
                   (''low alarm'', get_laser_temp_threshold self AUX2_LOW_ALARM),
                   (''high warn'', get_laser_temp_threshold self AUX2_HIGH_WARN),
                   (''low warn'', get_laser_temp_threshold self AUX2_LOW_WARN)]
          else if aux2_mon_type = 1 \<and> aux3_mon_type = 0 then
            edict [(''monitor value'', get_laser_temp_threshold self AUX3_MON),
                   (''high alarm'', get_laser_temp_threshold self AUX3_HIGH_ALARM),
                   (''low alarm'', get_laser_temp_threshold self AUX3_LOW_ALARM),
                   (''high warn'', get_laser_temp_threshold self AUX3_HIGH_WARN),
                   (''low warn'', get_laser_temp_threshold self AUX3_LOW_WARN)]
          else Inr laser_temp_default)"

text \<open>
  \<^verbatim>\<open>get_transceiver_threshold_info\<close>. \<^verbatim>\<open>get_transceiver_thresholds_support\<close> is
  \<^verbatim>\<open>not self.is_flat_memory()\<close>, never \<^verbatim>\<open>None\<close>. A bias threshold is \<^verbatim>\<open>'N/A'\<close> when the scale
  read fails, and is not looked up then. The four laser-temperature entries are copied
  inside a \<^verbatim>\<open>try\<close> that passes on \<^verbatim>\<open>KeyError\<close> and \<^verbatim>\<open>TypeError\<close>.
\<close>

definition get_transceiver_thresholds_support :: "cmis_api \<Rightarrow> bool" where
  "get_transceiver_thresholds_support self = (\<not> is_flat_memory self)"

definition threshold_info_keys :: "string list" where
  "threshold_info_keys =
     [''temphighalarm'', ''temphighwarning'', ''templowalarm'', ''templowwarning'',
      ''vcchighalarm'', ''vcchighwarning'', ''vcclowalarm'', ''vcclowwarning'',
      ''rxpowerhighalarm'', ''rxpowerhighwarning'', ''rxpowerlowalarm'', ''rxpowerlowwarning'',
      ''txpowerhighalarm'', ''txpowerhighwarning'', ''txpowerlowalarm'', ''txpowerlowwarning'',
      ''txbiashighalarm'', ''txbiashighwarning'', ''txbiaslowalarm'', ''txbiaslowwarning'']"

definition thr_plain :: "py_ext \<Rightarrow> pyval \<Rightarrow> string \<Rightarrow> exn + pyval" where
  "thr_plain py thresh field = ebind (py_getitem thresh field) (fmt3 py)"

definition thr_dbm :: "py_ext \<Rightarrow> pyval \<Rightarrow> string \<Rightarrow> exn + pyval" where
  "thr_dbm py thresh field =
     ebind (py_getitem thresh field) (\<lambda>v. ebind (mw_to_dbm py v) (fmt3 py))"

definition thr_bias :: "py_ext \<Rightarrow> pyval \<Rightarrow> pyval option \<Rightarrow> string \<Rightarrow> exn + pyval" where
  "thr_bias py thresh tx_bias_scale field =
     (case tx_bias_scale of
        None \<Rightarrow> Inr NA
      | Some scale \<Rightarrow>
          ebind (py_getitem thresh field) (\<lambda>v. ebind (py_mul v scale) (fmt3 py)))"

fun copy_keys :: "pydict \<Rightarrow> pydict \<Rightarrow> (string \<times> string) list \<Rightarrow> pydict" where
  "copy_keys dst src [] = dst"
| "copy_keys dst src ((k_dst, k_src) # ks) =
     (case map_of src k_src of
        None \<Rightarrow> dst
      | Some v \<Rightarrow> copy_keys (dict_set dst k_dst v) src ks)"

text \<open>The dictionary display of \<^verbatim>\<open>get_transceiver_threshold_info\<close>, entry by entry.\<close>

definition threshold_entries ::
  "py_ext \<Rightarrow> pyval \<Rightarrow> pyval option \<Rightarrow> (string \<times> (exn + pyval)) list" where
  "threshold_entries py thresh tx_bias_scale =
     [(''temphighalarm'', thr_plain py thresh TEMP_HIGH_ALARM_FIELD),
      (''templowalarm'', thr_plain py thresh TEMP_LOW_ALARM_FIELD),
      (''temphighwarning'', thr_plain py thresh TEMP_HIGH_WARNING_FIELD),
      (''templowwarning'', thr_plain py thresh TEMP_LOW_WARNING_FIELD),
      (''vcchighalarm'', thr_plain py thresh VOLTAGE_HIGH_ALARM_FIELD),
      (''vcclowalarm'', thr_plain py thresh VOLTAGE_LOW_ALARM_FIELD),
      (''vcchighwarning'', thr_plain py thresh VOLTAGE_HIGH_WARNING_FIELD),
      (''vcclowwarning'', thr_plain py thresh VOLTAGE_LOW_WARNING_FIELD),
      (''rxpowerhighalarm'', thr_dbm py thresh RX_POWER_HIGH_ALARM_FIELD),
      (''rxpowerlowalarm'', thr_dbm py thresh RX_POWER_LOW_ALARM_FIELD),
      (''rxpowerhighwarning'', thr_dbm py thresh RX_POWER_HIGH_WARNING_FIELD),
      (''rxpowerlowwarning'', thr_dbm py thresh RX_POWER_LOW_WARNING_FIELD),
      (''txpowerhighalarm'', thr_dbm py thresh TX_POWER_HIGH_ALARM_FIELD),
      (''txpowerlowalarm'', thr_dbm py thresh TX_POWER_LOW_ALARM_FIELD),
      (''txpowerhighwarning'', thr_dbm py thresh TX_POWER_HIGH_WARNING_FIELD),
      (''txpowerlowwarning'', thr_dbm py thresh TX_POWER_LOW_WARNING_FIELD),
      (''txbiashighalarm'', thr_bias py thresh tx_bias_scale TX_BIAS_HIGH_ALARM_FIELD),
      (''txbiaslowalarm'', thr_bias py thresh tx_bias_scale TX_BIAS_LOW_ALARM_FIELD),
      (''txbiashighwarning'', thr_bias py thresh tx_bias_scale TX_BIAS_HIGH_WARNING_FIELD),
      (''txbiaslowwarning'', thr_bias py thresh tx_bias_scale TX_BIAS_LOW_WARNING_FIELD)]"

definition laser_threshold_keys :: "(string \<times> string) list" where
  "laser_threshold_keys =
     [(''lasertemphighalarm'', ''high alarm''),
      (''lasertemplowalarm'', ''low alarm''),
      (''lasertemphighwarning'', ''high warn''),
      (''lasertemplowwarning'', ''low warn'')]"

definition get_transceiver_threshold_info :: "py_ext \<Rightarrow> cmis_api \<Rightarrow> exn + pydict option" where
  "get_transceiver_threshold_info py self =
     (let thresh_support = get_transceiver_thresholds_support self in
      if \<not> thresh_support then Inr (Some (map (\<lambda>k. (k, NA)) threshold_info_keys))
      else let thresh = rd self THRESHOLDS_FIELD in
        if thresh = PNone then Inr None
        else let tx_bias_scale_raw = rd self TX_BIAS_SCALE in
          ebind (if tx_bias_scale_raw \<noteq> PNone
                 then ebind (tx_bias_scale_of py tx_bias_scale_raw) (\<lambda>v. Inr (Some v))
                 else Inr None) (\<lambda>tx_bias_scale.
          ebind (edict (threshold_entries py thresh tx_bias_scale)) (\<lambda>threshold_info_dict.
          ebind (get_laser_temperature self) (\<lambda>laser_temp_dict.
            Inr (Some (copy_keys threshold_info_dict laser_temp_dict laser_threshold_keys))))))"

section \<open>VDM aggregation\<close>

text \<open>
  \<^verbatim>\<open>c[k]\<close>: a dictionary lookup (\<^verbatim>\<open>KeyError\<close> when the key is absent), an integer index into
  a sequence or a string (\<^verbatim>\<open>IndexError\<close> out of range, \<^verbatim>\<open>TypeError\<close> for a string index),
  \<^verbatim>\<open>TypeError\<close> for a value that is not subscriptable.
\<close>

fun vdm_getitem :: "vdm_raw \<Rightarrow> vkey \<Rightarrow> exn + vdm_raw" where
  "vdm_getitem (VDict d) k = (case map_of d k of None \<Rightarrow> Inl KeyError | Some v \<Rightarrow> Inr v)"
| "vdm_getitem (VList l) (KInt i) = py_index l i"
| "vdm_getitem (VList l) (KStr s) = Inl TypeError"
| "vdm_getitem (VStr s) (KInt i) = ebind (py_index s i) (\<lambda>c. Inr (VStr [c]))"
| "vdm_getitem (VStr s) (KStr t) = Inl TypeError"
| "vdm_getitem _ k = Inl TypeError"

type_synonym vdm_dict = "(string \<times> vdm_raw) list"

datatype VdmSubtypeIndex =
    VDM_SUBTYPE_REAL_VALUE
  | VDM_SUBTYPE_HALARM_THRESHOLD
  | VDM_SUBTYPE_LALARM_THRESHOLD
  | VDM_SUBTYPE_HWARN_THRESHOLD
  | VDM_SUBTYPE_LWARN_THRESHOLD
  | VDM_SUBTYPE_HALARM_FLAG
  | VDM_SUBTYPE_LALARM_FLAG
  | VDM_SUBTYPE_HWARN_FLAG
  | VDM_SUBTYPE_LWARN_FLAG

fun subtype_value :: "VdmSubtypeIndex \<Rightarrow> int" where
  "subtype_value VDM_SUBTYPE_REAL_VALUE = 0"
| "subtype_value VDM_SUBTYPE_HALARM_THRESHOLD = 1"
| "subtype_value VDM_SUBTYPE_LALARM_THRESHOLD = 2"
| "subtype_value VDM_SUBTYPE_HWARN_THRESHOLD = 3"
| "subtype_value VDM_SUBTYPE_LWARN_THRESHOLD = 4"
| "subtype_value VDM_SUBTYPE_HALARM_FLAG = 5"
| "subtype_value VDM_SUBTYPE_LALARM_FLAG = 6"
| "subtype_value VDM_SUBTYPE_HWARN_FLAG = 7"
| "subtype_value VDM_SUBTYPE_LWARN_FLAG = 8"

definition THRESHOLD_TYPE_STR_MAP :: "(VdmSubtypeIndex \<times> string) list" where
  "THRESHOLD_TYPE_STR_MAP =
     [(VDM_SUBTYPE_HALARM_THRESHOLD, ''halarm''),
      (VDM_SUBTYPE_LALARM_THRESHOLD, ''lalarm''),
      (VDM_SUBTYPE_HWARN_THRESHOLD, ''hwarn''),
      (VDM_SUBTYPE_LWARN_THRESHOLD, ''lwarn'')]"

definition FLAG_TYPE_STR_MAP :: "(VdmSubtypeIndex \<times> string) list" where
  "FLAG_TYPE_STR_MAP =
     [(VDM_SUBTYPE_HALARM_FLAG, ''halarm''),
      (VDM_SUBTYPE_LALARM_FLAG, ''lalarm''),
      (VDM_SUBTYPE_HWARN_FLAG, ''hwarn''),
      (VDM_SUBTYPE_LWARN_FLAG, ''lwarn'')]"

definition CMIS_VDM_KEY_TO_DB_PREFIX_KEY_MAP :: "(string \<times> string) list" where
  "CMIS_VDM_KEY_TO_DB_PREFIX_KEY_MAP =
     [(''Laser Temperature [C]'', ''laser_temperature_media''),
      (''eSNR Media Input [dB]'', ''esnr_media_input''),
      (''PAM4 Level Transition Parameter Media Input [dB]'', ''pam4_level_transition_media_input''),
      (''Pre-FEC BER Minimum Media Input'', ''prefec_ber_min_media_input''),
      (''Pre-FEC BER Maximum Media Input'', ''prefec_ber_max_media_input''),
      (''Pre-FEC BER Average Media Input'', ''prefec_ber_avg_media_input''),
      (''Pre-FEC BER Current Value Media Input'', ''prefec_ber_curr_media_input''),
      (''Errored Frames Minimum Media Input'', ''errored_frames_min_media_input''),
      (''Errored Frames Maximum Media Input'', ''errored_frames_max_media_input''),
      (''Errored Frames Average Media Input'', ''errored_frames_avg_media_input''),
      (''Errored Frames Current Value Media Input'', ''errored_frames_curr_media_input''),
      (''eSNR Host Input [dB]'', ''esnr_host_input''),
      (''PAM4 Level Transition Parameter Host Input [dB]'', ''pam4_level_transition_host_input''),
      (''Pre-FEC BER Minimum Host Input'', ''prefec_ber_min_host_input''),
      (''Pre-FEC BER Maximum Host Input'', ''prefec_ber_max_host_input''),
      (''Pre-FEC BER Average Host Input'', ''prefec_ber_avg_host_input''),
      (''Pre-FEC BER Current Value Host Input'', ''prefec_ber_curr_host_input''),
      (''Errored Frames Minimum Host Input'', ''errored_frames_min_host_input''),
      (''Errored Frames Maximum Host Input'', ''errored_frames_max_host_input''),
      (''Errored Frames Average Host Input'', ''errored_frames_avg_host_input''),
      (''Errored Frames Current Value Host Input'', ''errored_frames_curr_host_input'')]"

definition get_vdm_key_to_db_prefix_map :: "cmis_api \<Rightarrow> (string \<times> string) list" where
  "get_vdm_key_to_db_prefix_map self = CMIS_VDM_KEY_TO_DB_PREFIX_KEY_MAP"

text \<open>
  \<^verbatim>\<open>_update_vdm_dict\<close>: the lookup \<^verbatim>\<open>vdm_raw_dict[type][lane][index]\<close> (\<open>vdm_lookup\<close>) runs inside a \<^verbatim>\<open>try\<close>
  whose handler is \<^verbatim>\<open>except (KeyError, TypeError)\<close>; the handler stores \<^verbatim>\<open>'N/A'\<close> and
  returns \<^verbatim>\<open>False\<close>. Any other exception leaves the function.
\<close>

definition vdm_lookup :: "vdm_raw \<Rightarrow> string \<Rightarrow> int \<Rightarrow> VdmSubtypeIndex \<Rightarrow> exn + vdm_raw" where
  "vdm_lookup vdm_raw_dict vdm_observable_type lane vdm_subtype_index =
     ebind (vdm_getitem vdm_raw_dict (KStr vdm_observable_type)) (\<lambda>by_lane.
       ebind (vdm_getitem by_lane (KInt lane)) (\<lambda>subtypes.
         vdm_getitem subtypes (KInt (subtype_value vdm_subtype_index))))"

definition update_vdm_dict ::
  "vdm_dict \<Rightarrow> string \<Rightarrow> vdm_raw \<Rightarrow> string \<Rightarrow> VdmSubtypeIndex \<Rightarrow> int \<Rightarrow> exn + bool \<times> vdm_dict" where
  "update_vdm_dict dict_to_update new_key vdm_raw_dict vdm_observable_type vdm_subtype_index lane =
     (case vdm_lookup vdm_raw_dict vdm_observable_type lane vdm_subtype_index of
        Inr v \<Rightarrow> Inr (True, dict_set dict_to_update new_key v)
      | Inl e \<Rightarrow>
          if e = KeyError \<or> e = TypeError
          then Inr (False, dict_set dict_to_update new_key (VStr ''N/A''))
          else Inl e)"

text \<open>
  \<^verbatim>\<open>get_vdm\<close>: the default option is \<^verbatim>\<open>self.vdm.ALL_FIELD\<close>, an attribute of the handle; the
  page read is skipped, and \<^verbatim>\<open>{}\<close> returned, when the handle is \<^verbatim>\<open>None\<close>.
\<close>

definition get_vdm :: "cmis_api \<Rightarrow> vdm_field option \<Rightarrow> exn + vdm_raw" where
  "get_vdm self field_option =
     ebind (case field_option of
              None \<Rightarrow> (case vdm self of None \<Rightarrow> Inl AttributeError | Some v \<Rightarrow> Inr ALL_FIELD)
            | Some fo \<Rightarrow> Inr fo) (\<lambda>fo.
       case vdm self of
         Some v \<Rightarrow> Inr (get_vdm_allpage v fo)
       | None \<Rightarrow> Inr (VDict []))"

text \<open>A loop that threads the dictionary under construction through its iterations.\<close>

fun efold :: "('a \<Rightarrow> 's \<Rightarrow> exn + 's) \<Rightarrow> 'a list \<Rightarrow> 's \<Rightarrow> exn + 's" where
  "efold f [] s = Inr s"
| "efold f (x # xs) s = ebind (f x s) (efold f xs)"

definition lanes_1_to_8 :: "nat list" where
  "lanes_1_to_8 = [1..<NUM_CHANNELS + 1]"

text \<open>
  \<^verbatim>\<open>get_transceiver_vdm_real_value\<close>: the argument \<^verbatim>\<open>self.vdm.VDM_REAL_VALUE\<close> is an attribute
  of the handle, evaluated before \<^verbatim>\<open>get_vdm\<close> is entered. One output key per observable
  and lane.
\<close>

definition get_transceiver_vdm_real_value :: "cmis_api \<Rightarrow> exn + vdm_dict" where
  "get_transceiver_vdm_real_value self =
     ebind (case vdm self of None \<Rightarrow> Inl AttributeError | Some v \<Rightarrow> Inr VDM_REAL_VALUE) (\<lambda>fo.
     ebind (get_vdm self (Some fo)) (\<lambda>vdm_raw_dict.
       efold (\<lambda>(vdm_observable_type, db_key_name_prefix).
         efold (\<lambda>lane vdm_real_value_dict.
           ebind (update_vdm_dict vdm_real_value_dict (db_key_name_prefix @ str_nat lane)
                    vdm_raw_dict vdm_observable_type VDM_SUBTYPE_REAL_VALUE (int lane))
             (\<lambda>(_, d). Inr d)) lanes_1_to_8)
         (get_vdm_key_to_db_prefix_map self) []))"

text \<open>
  \<^verbatim>\<open>get_transceiver_vdm_thresholds\<close> and \<^verbatim>\<open>get_transceiver_vdm_flags\<close>: for each observable
  and lane, the four subtypes in index order; a subtype without a label in the string map
  is skipped.
\<close>

definition vdm_subtypes_loop ::
  "(VdmSubtypeIndex \<times> string) list \<Rightarrow> VdmSubtypeIndex list \<Rightarrow> vdm_raw \<Rightarrow>
   (string \<times> string) list \<Rightarrow> exn + vdm_dict" where
  "vdm_subtypes_loop type_str_map subtypes vdm_raw_dict prefix_map =
     efold (\<lambda>(vdm_observable_type, db_key_name_prefix).
       efold (\<lambda>lane.
         efold (\<lambda>vdm_type_enum vdm_dict.
           case map_of type_str_map vdm_type_enum of
             None \<Rightarrow> Inr vdm_dict
           | Some type_str \<Rightarrow>
               if type_str = [] then Inr vdm_dict
               else ebind (update_vdm_dict vdm_dict
                             (db_key_name_prefix @ ''_'' @ type_str @ str_nat lane)
                             vdm_raw_dict vdm_observable_type vdm_type_enum (int lane))
                      (\<lambda>(_, d). Inr d)) subtypes) lanes_1_to_8)
       prefix_map []"

definition get_transceiver_vdm_thresholds :: "cmis_api \<Rightarrow> exn + vdm_dict" where
  "get_transceiver_vdm_thresholds self =
     ebind (case vdm self of None \<Rightarrow> Inl AttributeError | Some v \<Rightarrow> Inr VDM_THRESHOLD) (\<lambda>fo.
     ebind (get_vdm self (Some fo)) (\<lambda>vdm_raw_dict.
       vdm_subtypes_loop THRESHOLD_TYPE_STR_MAP
         [VDM_SUBTYPE_HALARM_THRESHOLD, VDM_SUBTYPE_LALARM_THRESHOLD,
          VDM_SUBTYPE_HWARN_THRESHOLD, VDM_SUBTYPE_LWARN_THRESHOLD]
         vdm_raw_dict (get_vdm_key_to_db_prefix_map self)))"

definition get_transceiver_vdm_flags :: "cmis_api \<Rightarrow> exn + vdm_dict" where
  "get_transceiver_vdm_flags self =
     ebind (case vdm self of None \<Rightarrow> Inl AttributeError | Some v \<Rightarrow> Inr VDM_FLAG) (\<lambda>fo.
     ebind (get_vdm self (Some fo)) (\<lambda>vdm_raw_dict.
       vdm_subtypes_loop FLAG_TYPE_STR_MAP
         [VDM_SUBTYPE_HALARM_FLAG, VDM_SUBTYPE_LALARM_FLAG,
          VDM_SUBTYPE_HWARN_FLAG, VDM_SUBTYPE_LWARN_FLAG]
         vdm_raw_dict (get_vdm_key_to_db_prefix_map self)))"

section \<open>Firmware management over CDB\<close>

abbreviation nl :: string where "nl \<equiv> [CHR 0x0A]"

text \<open>Issuing a CDB command: the reply depends on the history, and the command joins it.\<close>

definition cdb_call :: "cmis_cdb_api \<Rightarrow> cmis_api \<Rightarrow> cdb_cmd \<Rightarrow> cdb_reply \<times> cmis_api" where
  "cdb_call c self cmd = (respond c (cdb_log self) cmd, self\<lparr>cdb_log := cdb_log self @ [cmd]\<rparr>)"

text \<open>
  \<^verbatim>\<open>module_fw_run\<close>: status 1 is success; status 70 enters the password and issues the
  command again; any other status fails. The value returned is \<^verbatim>\<open>(bool, txt)\<close>.
\<close>

definition module_fw_run :: "cmis_api \<Rightarrow> int \<Rightarrow> (bool \<times> string) \<times> cmis_api" where
  "module_fw_run self mode =
     (case cdb self of
        None \<Rightarrow> ((False, ''CDB NOT supported on this module''), self)
      | Some c \<Rightarrow>
          let (r1, self1) = cdb_call c self (RunFwImage mode);
              fw_run_status = cdb_status r1
          in if fw_run_status = 1
             then ((True, ''Module FW run: Success'' @ nl), self1)
             else if fw_run_status = 70
             then let (r2, self2) = cdb_call c self1 (ModuleEnterPassword None);
                      (r3, self3) = cdb_call c self2 (RunFwImage mode);
                      fw_run_status = cdb_status r3
                  in ((True, ''FW_run_status '' @ str_int fw_run_status @ nl), self3)
             else ((False, ''Module FW run: Fail'' @ nl
                           @ ''FW_run_status '' @ str_int fw_run_status @ nl), self1))"

definition module_fw_commit :: "cmis_api \<Rightarrow> (bool \<times> string) \<times> cmis_api" where
  "module_fw_commit self =
     (case cdb self of
        None \<Rightarrow> ((False, ''CDB NOT supported on this module''), self)
      | Some c \<Rightarrow>
          let (r1, self1) = cdb_call c self CommitFwImage;
              fw_commit_status = cdb_status r1
          in if fw_commit_status = 1
             then ((True, ''Module FW commit: Success'' @ nl), self1)
             else if fw_commit_status = 70
             then let (r2, self2) = cdb_call c self1 (ModuleEnterPassword None);
                      (r3, self3) = cdb_call c self2 CommitFwImage;
                      fw_commit_status = cdb_status r3
                  in ((True, ''FW_commit_status '' @ str_int fw_commit_status @ nl), self3)
             else ((False, ''Module FW commit: Fail'' @ nl
                           @ ''FW_commit_status '' @ str_int fw_commit_status @ nl), self1))"

text \<open>
  \<^verbatim>\<open>module_fw_download\<close>. The image file is a byte list, \<open>None\<close> when \<^verbatim>\<open>open\<close> raises
  \<^verbatim>\<open>FileNotFoundError\<close>; \<open>file_read\<close> is \<^verbatim>\<open>f.read(n)\<close> at position \<open>pos\<close> on the buffered reader
  that \<^verbatim>\<open>open(path, 'rb')\<close> returns: at most \<open>n\<close> bytes, everything that is left for \<open>-1\<close>,
  \<^verbatim>\<open>ValueError\<close> for a smaller \<open>n\<close>. The block loop runs while \<^verbatim>\<open>remaining > 0\<close> and need not
  end (a block size of zero never reduces \<^verbatim>\<open>remaining\<close>), so it is a partial function
  and \<open>None\<close> stands for a loop that does not return. After each block written the loop
  computes \<^verbatim>\<open>(imagesize - remaining) * 100.0 / imagesize\<close> for the log, which raises
  \<^verbatim>\<open>ZeroDivisionError\<close> on an empty image. The loop yields the failing status, if any,
  after the abort command. \<open>elapsed\<close> is the rendering \<^verbatim>\<open>'%.2f' % elapsedtime\<close> of the clock
  difference, which the returned text contains.
\<close>

definition file_read :: "byte list \<Rightarrow> nat \<Rightarrow> int \<Rightarrow> exn + byte list" where
  "file_read img pos n =
     (if n = - 1 then Inr (drop pos img)
      else if n < 0 then Inl ValueError
      else Inr (take (nat n) (drop pos img)))"

partial_function (option) fw_download_blocks ::
  "cmis_cdb_api \<Rightarrow> byte list \<Rightarrow> int \<Rightarrow> bool \<Rightarrow> bool \<Rightarrow> int \<Rightarrow>
   cmis_api \<Rightarrow> int \<Rightarrow> int \<Rightarrow> nat \<Rightarrow> (exn + int option \<times> cmis_api) option" where
  "fw_download_blocks c img BLOCK_SIZE lplonly_flag autopaging_flag writelength
     self address remaining pos =
     (if remaining > 0 then
        let count = (if remaining < BLOCK_SIZE then remaining else BLOCK_SIZE)
        in case file_read img pos count of
             Inl e \<Rightarrow> Some (Inl e)
           | Inr data \<Rightarrow>
               let rs = cdb_call c self
                          (if lplonly_flag then BlockWriteLpl address data
                           else BlockWriteEpl address data autopaging_flag writelength);
                   fw_download_status = cdb_status (fst rs)
               in if fw_download_status \<noteq> 1
                  then Some (Inr (Some fw_download_status,
                                  snd (cdb_call c (snd rs) AbortFwDownload)))
                  else if img = [] then Some (Inl ZeroDivisionError)
                  else fw_download_blocks c img BLOCK_SIZE lplonly_flag autopaging_flag
                         writelength (snd rs) (address + count) (remaining - count)
                         (pos + length data)
      else Some (Inr (None, self)))"

text \<open>The part of \<^verbatim>\<open>module_fw_download\<close> after the start command: the blocks, then validation.\<close>

definition fw_download_transfer ::
  "cmis_cdb_api \<Rightarrow> string \<Rightarrow> byte list \<Rightarrow> cmis_api \<Rightarrow> int \<Rightarrow> int \<Rightarrow> bool \<Rightarrow> bool \<Rightarrow> int \<Rightarrow>
   nat \<Rightarrow> (exn + (bool \<times> string) \<times> cmis_api) option" where
  "fw_download_transfer c elapsed img self startLPLsize maxblocksize lplonly_flag autopaging_flag
     writelength pos =
     (let BLOCK_SIZE = (if lplonly_flag then 116 else maxblocksize);
          remaining = int (length img) - startLPLsize
      in Option.bind
           (fw_download_blocks c img BLOCK_SIZE lplonly_flag autopaging_flag writelength
              self 0 remaining pos)
           (\<lambda>blocks.
              case blocks of
                Inl e \<Rightarrow> Some (Inl e)
              | Inr (Some fw_download_status, self4) \<Rightarrow>
                  Some (Inr ((False, ''CDB download failed. CDB Status: ''
                                     @ str_int fw_download_status @ nl
                                     @ ''FW_download_status '' @ str_int fw_download_status
                                     @ nl),
                             self4))
              | Inr (None, self4) \<Rightarrow>
                  let (r5, self5) = cdb_call c self4 ValidateFwImage;
                      fw_complete_status = cdb_status r5
                  in if fw_complete_status = 1
                     then Some (Inr ((True, ''Module FW download complete: Success''
                                            @ ''Complete module FW download time: ''
                                            @ elapsed @ '' s'' @ nl), self5))
                     else Some (Inr ((False, ''Module FW download complete: Fail'' @ nl
                                             @ ''FW_complete_status ''
                                             @ str_int fw_complete_status @ nl), self5))))"

definition module_fw_download ::
  "(string \<Rightarrow> byte list option) \<Rightarrow> string \<Rightarrow> cmis_api \<Rightarrow> int \<Rightarrow> int \<Rightarrow> bool \<Rightarrow> bool \<Rightarrow> int \<Rightarrow>
   string \<Rightarrow> (exn + (bool \<times> string) \<times> cmis_api) option" where
  "module_fw_download files elapsed self startLPLsize maxblocksize lplonly_flag autopaging_flag
     writelength imagepath =
     (case cdb self of
        None \<Rightarrow> Some (Inr ((False, ''CDB NOT supported on this module''), self))
      | Some c \<Rightarrow>
        (case files imagepath of
           None \<Rightarrow>
             Some (Inr ((False, ''Image path  '' @ imagepath @ '' is incorrect.'' @ nl), self))
         | Some img \<Rightarrow>
             let imagesize = int (length img)
             in case file_read img 0 startLPLsize of
                  Inl e \<Rightarrow> Some (Inl e)
                | Inr startdata \<Rightarrow>
                    let (r1, self1) =
                          cdb_call c self (StartFwDownload startLPLsize startdata imagesize);
                        fw_start_status = cdb_status r1
                    in if fw_start_status = 1
                       then fw_download_transfer c elapsed img self1 startLPLsize maxblocksize
                              lplonly_flag autopaging_flag writelength (length startdata)
                       else if fw_start_status = 70
                       then let (r2, self2) = cdb_call c self1 (ModuleEnterPassword None);
                                (r3, self3) = cdb_call c self2
                                                (StartFwDownload startLPLsize startdata imagesize)
                            in fw_download_transfer c elapsed img self3 startLPLsize
                                 maxblocksize lplonly_flag autopaging_flag writelength
                                 (length startdata)
                       else let (r2, self2) = cdb_call c self1 AbortFwDownload
                            in Some (Inr ((False, ''Start module FW download: Fail'' @ nl
                                                  @ ''FW_start_status ''
                                                  @ str_int fw_start_status @ nl),
                                          self2))))"

section \<open>Firmware information and bank switch\<close>

abbreviation INACTIVE_FW_MAJOR_REV :: string where "INACTIVE_FW_MAJOR_REV \<equiv> ''INACTIVE_FW_MAJOR_REV''"
abbreviation INACTIVE_FW_MINOR_REV :: string where "INACTIVE_FW_MINOR_REV \<equiv> ''INACTIVE_FW_MINOR_REV''"

text \<open>\<^verbatim>\<open>'.'.join(...)\<close> over \<^verbatim>\<open>str\<close> of two values.\<close>

definition join_dot :: "py_ext \<Rightarrow> pyval \<Rightarrow> pyval \<Rightarrow> string" where
  "join_dot py a b = py_str py a @ ''.'' @ py_str py b"

definition get_module_inactive_firmware :: "py_ext \<Rightarrow> cmis_api \<Rightarrow> string" where
  "get_module_inactive_firmware py self =
     (if is_flat_memory self then ''N/A''
      else let inactive_fw_major = rd self INACTIVE_FW_MAJOR_REV;
               inactive_fw_minor = rd self INACTIVE_FW_MINOR_REV
           in join_dot py inactive_fw_major inactive_fw_minor)"

text \<open>
  The dictionary \<^verbatim>\<open>get_module_fw_info\<close> returns has the keys \<^verbatim>\<open>'status'\<close>, \<^verbatim>\<open>'info'\<close> and
  \<^verbatim>\<open>'result'\<close>; \<^verbatim>\<open>'result'\<close> is \<^verbatim>\<open>None\<close>, the integer \<^verbatim>\<open>0\<close>, or a tuple of ten values.
\<close>

record fw_images =
  ImageA :: string
  ImageARunning :: int
  ImageACommitted :: int
  ImageAValid :: int
  ImageB :: string
  ImageBRunning :: int
  ImageBCommitted :: int
  ImageBValid :: int
  ActiveFirmware :: string
  InactiveFirmware :: string

datatype fw_result = ResultNone | ResultZero | ResultTuple fw_images

record fw_info =
  fi_status :: bool
  fi_info :: string
  fi_result :: fw_result

text \<open>\<^verbatim>\<open>rpl[i]\<close> on the reply payload, and \<^verbatim>\<open>'%d.%d.%d' % (rpl[i], rpl[i+1], (rpl[i+2] << 8) | rpl[i+3])\<close>.\<close>

definition rpl_at :: "byte list \<Rightarrow> int \<Rightarrow> exn + int" where
  "rpl_at rpl i = ebind (py_index rpl i) (\<lambda>b. Inr (uint b))"

definition image_version :: "byte list \<Rightarrow> int \<Rightarrow> exn + string" where
  "image_version rpl i =
     ebind (rpl_at rpl i) (\<lambda>major.
     ebind (rpl_at rpl (i + 1)) (\<lambda>minor.
     ebind (rpl_at rpl (i + 2)) (\<lambda>hi.
     ebind (rpl_at rpl (i + 3)) (\<lambda>lo.
       Inr (str_int major @ ''.'' @ str_int minor @ ''.'' @ str_int (push_bit 8 hi OR lo))))))"

text \<open>
  \<^verbatim>\<open>get_module_fw_info\<close>. A reply whose length or checksum is \<^verbatim>\<open>None\<close> is an interface
  failure. Status \<^verbatim>\<open>0x46\<close> enters password 0 and queries once more. The flags are bits of
  \<^verbatim>\<open>rpl[0]\<close>; a valid bit of 0 means a valid image. \<open>fw_info_decode\<close> is the branch taken
  when the status is 1 and the checksum matches.
\<close>

definition fw_info_decode ::
  "py_ext \<Rightarrow> cmis_api \<Rightarrow> int option \<Rightarrow> byte list \<Rightarrow> exn + fw_info" where
  "fw_info_decode py self rpllen rpl =
     ebind (rpl_at rpl 0) (\<lambda>fwStatus.
       let ImageARunning = fwStatus AND 0x01;
           ImageACommitted = drop_bit 1 fwStatus AND 0x01;
           ImageAValid = drop_bit 2 fwStatus AND 0x01;
           ImageBRunning = drop_bit 4 fwStatus AND 0x01;
           ImageBCommitted = drop_bit 5 fwStatus AND 0x01;
           ImageBValid = drop_bit 6 fwStatus AND 0x01
       in
       ebind (if ImageAValid = 0 then image_version rpl 2 else Inr ''N/A'') (\<lambda>ImageA.
       ebind (if ImageBValid = 0 then image_version rpl 38 else Inr ''N/A'') (\<lambda>ImageB.
       ebind (case rpllen of
                None \<Rightarrow> Inl TypeError
              | Some n \<Rightarrow>
                  if n > 77
                  then ebind (image_version rpl 74)
                         (\<lambda>factory_image. Inr (''Factory Image Version: '' @ factory_image @ nl))
                  else Inr []) (\<lambda>factory_txt.
         let (RunningImage, ActiveFirmware, InactiveFirmware) =
               (if ImageARunning = 1
                then (''A'', ImageA,
                      if ImageBValid = 0 then ImageB
                      else get_module_inactive_firmware py self @ ''.0'')
                else if ImageBRunning = 1
                then (''B'', ImageB,
                      if ImageAValid = 0 then ImageA
                      else get_module_inactive_firmware py self @ ''.0'')
                else (''N/A'', ''N/A'', ''N/A''));
             CommittedImage =
               (if ImageACommitted = 1 then ''A''
                else if ImageBCommitted = 1 then ''B'' else ''N/A'');
             txt = ''Image A Version: '' @ ImageA @ nl
                   @ ''Image B Version: '' @ ImageB @ nl
                   @ factory_txt
                   @ ''Running Image: '' @ RunningImage @ nl
                   @ ''Committed Image: '' @ CommittedImage @ nl
                   @ ''Active Firmware: '' @ ActiveFirmware @ nl
                   @ ''Inactive Firmware: '' @ InactiveFirmware @ nl
         in Inr \<lparr>fi_status = True, fi_info = txt,
                 fi_result = ResultTuple
                   \<lparr>ImageA = ImageA, ImageARunning = ImageARunning,
                    ImageACommitted = ImageACommitted, ImageAValid = ImageAValid,
                    ImageB = ImageB, ImageBRunning = ImageBRunning,
                    ImageBCommitted = ImageBCommitted, ImageBValid = ImageBValid,
                    ActiveFirmware = ActiveFirmware, InactiveFirmware = InactiveFirmware\<rparr>\<rparr>))))"

definition get_module_fw_info :: "py_ext \<Rightarrow> cmis_api \<Rightarrow> exn + fw_info \<times> cmis_api" where
  "get_module_fw_info py self =
     (case cdb self of
        None \<Rightarrow> Inr (\<lparr>fi_status = False, fi_info = ''CDB Not supported'', fi_result = ResultNone\<rparr>, self)
      | Some c \<Rightarrow>
          let (r1, self1) = cdb_call c self GetFwInfo in
          if cdb_rpllen r1 = None \<or> cdb_rpl_chkcode r1 = None
          then Inr (\<lparr>fi_status = False, fi_info = ''Interface fail'', fi_result = ResultZero\<rparr>, self1)
          else
            let (r, self3) =
                  (if cdb_status r1 = 0x46
                   then let (r2, self2) = cdb_call c self1 (ModuleEnterPassword (Some 0))
                        in cdb_call c self2 GetFwInfo
                   else (r1, self1))
            in if cdb_status r = 1 \<and> Some (cdb_chkcode c (cdb_rpl r)) = cdb_rpl_chkcode r
               then ebind (fw_info_decode py self3 (cdb_rpllen r) (cdb_rpl r)) (\<lambda>fi. Inr (fi, self3))
               else Inr (\<lparr>fi_status = False,
                          fi_info = ''Reply payload check code error'' @ nl,
                          fi_result = ResultNone\<rparr>, self3))"

text \<open>
  \<^verbatim>\<open>module_fw_switch\<close>. The first unpacking of \<^verbatim>\<open>result['result']\<close> is inside a \<^verbatim>\<open>try\<close> that
  returns \<^verbatim>\<open>(status, info)\<close> on \<^verbatim>\<open>ValueError\<close> or \<^verbatim>\<open>TypeError\<close>; the second unpacking, after
  run and commit, is not, so a result that is \<^verbatim>\<open>None\<close> or \<^verbatim>\<open>0\<close> raises \<^verbatim>\<open>TypeError\<close> there.
  The results of \<^verbatim>\<open>module_fw_run\<close> and \<^verbatim>\<open>module_fw_commit\<close> are discarded.
\<close>

definition image_line :: "string \<Rightarrow> string \<Rightarrow> int \<Rightarrow> int \<Rightarrow> int \<Rightarrow> string" where
  "image_line label img run commit valid =
     label @ img @ ''; Run: '' @ str_int run @ '' Commit: '' @ str_int commit
     @ '', Valid: '' @ str_int valid @ nl"

definition module_fw_switch :: "py_ext \<Rightarrow> cmis_api \<Rightarrow> exn + (bool \<times> string) \<times> cmis_api" where
  "module_fw_switch py self =
     ebind (get_module_fw_info py self) (\<lambda>(result0, self1).
       case fi_result result0 of
         ResultTuple before \<Rightarrow>
           if ImageAValid before = 0 \<and> ImageBValid before = 0
           then
             let (run_result, self2) = module_fw_run self1 0x01;
                 (commit_result, self3) = module_fw_commit self2
             in ebind (get_module_fw_info py self3) (\<lambda>(result1, self4).
                  case fi_result result1 of
                    ResultTuple after \<Rightarrow>
                      let txt =
                            image_line ''Before switch Image A: '' (ImageA before)
                              (ImageARunning before) (ImageACommitted before) (ImageAValid before)
                            @ image_line ''Before switch Image B: '' (ImageB before)
                              (ImageBRunning before) (ImageBCommitted before) (ImageBValid before)
                            @ image_line ''After switch Image A: '' (ImageA after)
                              (ImageARunning after) (ImageACommitted after) (ImageAValid after)
                            @ image_line ''After switch Image B: '' (ImageB after)
                              (ImageBRunning after) (ImageBCommitted after) (ImageBValid after)
                      in if (ImageARunning before = 1 \<and> ImageARunning after = 1)
                            \<or> (ImageBRunning before = 1 \<and> ImageBRunning after = 1)
                         then Inr ((False, txt @ ''Switch did not happen.'' @ nl), self4)
                         else Inr ((True, txt), self4)
                  | _ \<Rightarrow> Inl TypeError)
           else Inr ((False, ''Not both images are valid.''), self1)
       | _ \<Rightarrow> Inr ((fi_status result0, fi_info result0), self1))"

section \<open>Transceiver identity\<close>

abbreviation ADMIN_INFO_FIELD :: string where "ADMIN_INFO_FIELD \<equiv> ''ADMIN_INFO_FIELD''"
abbreviation EXT_ID_FIELD :: string where "EXT_ID_FIELD \<equiv> ''EXT_ID_FIELD''"
abbreviation POWER_CLASS_FIELD :: string where "POWER_CLASS_FIELD \<equiv> ''POWER_CLASS_FIELD''"
abbreviation MAX_POWER_FIELD :: string where "MAX_POWER_FIELD \<equiv> ''MAX_POWER_FIELD''"
abbreviation ID_FIELD :: string where "ID_FIELD \<equiv> ''ID_FIELD''"
abbreviation ID_ABBRV_FIELD :: string where "ID_ABBRV_FIELD \<equiv> ''ID_ABBRV_FIELD''"
abbreviation VENDOR_SERIAL_NO_FIELD :: string where "VENDOR_SERIAL_NO_FIELD \<equiv> ''VENDOR_SERIAL_NO_FIELD''"
abbreviation VENDOR_NAME_FIELD :: string where "VENDOR_NAME_FIELD \<equiv> ''VENDOR_NAME_FIELD''"
abbreviation VENDOR_PART_NO_FIELD :: string where "VENDOR_PART_NO_FIELD \<equiv> ''VENDOR_PART_NO_FIELD''"
abbreviation CONNECTOR_FIELD :: string where "CONNECTOR_FIELD \<equiv> ''CONNECTOR_FIELD''"
abbreviation LENGTH_ASSEMBLY_FIELD :: string where "LENGTH_ASSEMBLY_FIELD \<equiv> ''LENGTH_ASSEMBLY_FIELD''"
abbreviation VENDOR_DATE_FIELD :: string where "VENDOR_DATE_FIELD \<equiv> ''VENDOR_DATE_FIELD''"
abbreviation VENDOR_OUI_FIELD :: string where "VENDOR_OUI_FIELD \<equiv> ''VENDOR_OUI_FIELD''"
abbreviation VENDOR_REV_FIELD :: string where "VENDOR_REV_FIELD \<equiv> ''VENDOR_REV_FIELD''"
abbreviation HW_MAJOR_REV :: string where "HW_MAJOR_REV \<equiv> ''HW_MAJOR_REV''"
abbreviation HW_MINOR_REV :: string where "HW_MINOR_REV \<equiv> ''HW_MINOR_REV''"
abbreviation CMIS_MINOR_REVISION :: string where "CMIS_MINOR_REVISION \<equiv> ''CMIS_MINOR_REVISION''"
abbreviation MEDIA_TYPE_FIELD :: string where "MEDIA_TYPE_FIELD \<equiv> ''MEDIA_TYPE_FIELD''"
abbreviation MEDIA_INTERFACE_TECH :: string where "MEDIA_INTERFACE_TECH \<equiv> ''MEDIA_INTERFACE_TECH''"
abbreviation VDM_SUPPORTED :: string where "VDM_SUPPORTED \<equiv> ''VDM_SUPPORTED''"
abbreviation ACTIVE_APSEL_CODE :: string where "ACTIVE_APSEL_CODE \<equiv> ''ACTIVE_APSEL_CODE''"
abbreviation ACTIVE_APSEL_HOSTLANE :: string where "ACTIVE_APSEL_HOSTLANE \<equiv> ''ACTIVE_APSEL_HOSTLANE''"
abbreviation APPLS_ADVT_FIELD :: string where "APPLS_ADVT_FIELD \<equiv> ''APPLS_ADVT_FIELD''"
abbreviation APPLS_ADVT_FIELD_PAGE01 :: string where "APPLS_ADVT_FIELD_PAGE01 \<equiv> ''APPLS_ADVT_FIELD_PAGE01''"
abbreviation HOST_ELECTRICAL_INTERFACE :: string where "HOST_ELECTRICAL_INTERFACE \<equiv> ''HOST_ELECTRICAL_INTERFACE''"
abbreviation MODULE_MEDIA_INTERFACE_850NM :: string where "MODULE_MEDIA_INTERFACE_850NM \<equiv> ''MODULE_MEDIA_INTERFACE_850NM''"
abbreviation MODULE_MEDIA_INTERFACE_SM :: string where "MODULE_MEDIA_INTERFACE_SM \<equiv> ''MODULE_MEDIA_INTERFACE_SM''"
abbreviation MODULE_MEDIA_INTERFACE_PASSIVE_COPPER :: string where "MODULE_MEDIA_INTERFACE_PASSIVE_COPPER \<equiv> ''MODULE_MEDIA_INTERFACE_PASSIVE_COPPER''"
abbreviation MODULE_MEDIA_INTERFACE_ACTIVE_CABLE :: string where "MODULE_MEDIA_INTERFACE_ACTIVE_CABLE \<equiv> ''MODULE_MEDIA_INTERFACE_ACTIVE_CABLE''"
abbreviation MODULE_MEDIA_INTERFACE_BASE_T :: string where "MODULE_MEDIA_INTERFACE_BASE_T \<equiv> ''MODULE_MEDIA_INTERFACE_BASE_T''"
abbreviation MEDIA_LANE_COUNT :: string where "MEDIA_LANE_COUNT \<equiv> ''MEDIA_LANE_COUNT''"
abbreviation HOST_LANE_COUNT :: string where "HOST_LANE_COUNT \<equiv> ''HOST_LANE_COUNT''"
abbreviation HOST_LANE_ASSIGNMENT_OPTION :: string where "HOST_LANE_ASSIGNMENT_OPTION \<equiv> ''HOST_LANE_ASSIGNMENT_OPTION''"
abbreviation MEDIA_LANE_ASSIGNMENT_OPTION :: string where "MEDIA_LANE_ASSIGNMENT_OPTION \<equiv> ''MEDIA_LANE_ASSIGNMENT_OPTION''"

definition CMIS_XCVR_INFO_DEFAULT_DICT :: pydict where
  "CMIS_XCVR_INFO_DEFAULT_DICT =
     [(''type'', NA), (''type_abbrv_name'', NA), (''hardware_rev'', NA), (''serial'', NA),
      (''manufacturer'', NA), (''model'', NA), (''connector'', NA), (''encoding'', NA),
      (''ext_identifier'', NA), (''ext_rateselect_compliance'', NA), (''cable_length'', NA),
      (''nominal_bit_rate'', NA), (''vendor_date'', NA), (''vendor_oui'', NA)]
     @ map (\<lambda>i. (''active_apsel_hostlane'' @ str_nat i, NA)) [1..<9]
     @ [(''application_advertisement'', NA), (''host_electrical_interface'', NA),
        (''media_interface_code'', NA), (''host_lane_count'', NA), (''media_lane_count'', NA),
        (''host_lane_assignment_option'', NA), (''media_lane_assignment_option'', NA),
        (''cable_type'', NA), (''media_interface_technology'', NA), (''vendor_rev'', NA),
        (''cmis_rev'', NA), (''specification_compliance'', NA), (''vdm_supported'', NA)]"

text \<open>
  \<^verbatim>\<open>_strip_str\<close>: \<^verbatim>\<open>val.rstrip()\<close> for a string, else the value. A character of a string is
  a code point below 256; \<open>py_isspace\<close> is \<^verbatim>\<open>str.isspace\<close> on these: the ASCII whitespace, the
  separators 28 to 31, NEL (133) and the no-break space (160).
\<close>

definition py_isspace :: "char \<Rightarrow> bool" where
  "py_isspace c =
     (let n = (of_char c :: nat)
      in (9 \<le> n \<and> n \<le> 13) \<or> (28 \<le> n \<and> n \<le> 32) \<or> n = 133 \<or> n = 160)"

definition rstrip :: "string \<Rightarrow> string" where
  "rstrip s = rev (dropWhile py_isspace (rev s))"

definition strip_str :: "pyval \<Rightarrow> pyval" where
  "strip_str val = (case val of PStr s \<Rightarrow> PStr (rstrip s) | _ \<Rightarrow> val)"

text \<open>\<^verbatim>\<open>d.get(k)\<close> and \<^verbatim>\<open>d.update(d2)\<close> on dictionaries.\<close>

definition dict_get :: "pydict \<Rightarrow> string \<Rightarrow> pyval" where
  "dict_get d k = (case map_of d k of None \<Rightarrow> PNone | Some v \<Rightarrow> v)"

definition dict_update :: "pydict \<Rightarrow> pydict \<Rightarrow> pydict" where
  "dict_update d d2 = fold (\<lambda>(k, v) acc. dict_set acc k v) (dict_items d2) d"

definition get_module_hardware_revision :: "py_ext \<Rightarrow> cmis_api \<Rightarrow> string" where
  "get_module_hardware_revision py self =
     (if is_flat_memory self then ''0.0''
      else let hw_major_rev = rd self HW_MAJOR_REV;
               hw_minor_rev = rd self HW_MINOR_REV
           in join_dot py hw_major_rev hw_minor_rev)"

definition get_cmis_rev :: "py_ext \<Rightarrow> cmis_api \<Rightarrow> string" where
  "get_cmis_rev py self =
     (let cmis_major = rd self CMIS_MAJOR_REVISION;
          cmis_minor = rd self CMIS_MINOR_REVISION
      in join_dot py cmis_major cmis_minor)"

definition get_vendor_rev :: "cmis_api \<Rightarrow> pyval" where
  "get_vendor_rev self = strip_str (rd self VENDOR_REV_FIELD)"

definition get_cable_length_type :: "cmis_api \<Rightarrow> pyval" where
  "get_cable_length_type self = PStr ''Length Cable Assembly(m)''"

definition get_module_media_type :: "cmis_api \<Rightarrow> pyval" where
  "get_module_media_type self = rd self MEDIA_TYPE_FIELD"

definition get_host_electrical_interface :: "cmis_api \<Rightarrow> pyval" where
  "get_host_electrical_interface self =
     (if is_flat_memory self then NA else rd self HOST_ELECTRICAL_INTERFACE)"

definition get_module_media_interface :: "cmis_api \<Rightarrow> pyval" where
  "get_module_media_interface self =
     (let media_type = get_module_media_type self in
      if media_type = PStr ''nm_850_media_interface'' then rd self MODULE_MEDIA_INTERFACE_850NM
      else if media_type = PStr ''sm_media_interface'' then rd self MODULE_MEDIA_INTERFACE_SM
      else if media_type = PStr ''passive_copper_media_interface''
        then rd self MODULE_MEDIA_INTERFACE_PASSIVE_COPPER
      else if media_type = PStr ''active_cable_media_interface''
        then rd self MODULE_MEDIA_INTERFACE_ACTIVE_CABLE
      else if media_type = PStr ''base_t_media_interface'' then rd self MODULE_MEDIA_INTERFACE_BASE_T
      else PStr ''Unknown media interface'')"

definition get_host_lane_count :: "cmis_api \<Rightarrow> pyval" where
  "get_host_lane_count self = rd self HOST_LANE_COUNT"

definition get_media_interface_technology :: "cmis_api \<Rightarrow> pyval" where
  "get_media_interface_technology self = rd self MEDIA_INTERFACE_TECH"

text \<open>\<^verbatim>\<open>self.vdm is not None and self.xcvr_eeprom.read(consts.VDM_SUPPORTED)\<close>.\<close>

definition is_transceiver_vdm_supported :: "cmis_api \<Rightarrow> pyval" where
  "is_transceiver_vdm_supported self =
     (if vdm self = None then PBool False else rd self VDM_SUPPORTED)"

text \<open>
  \<^verbatim>\<open>get_application_advertisement\<close>. The table \<^verbatim>\<open>Sff8024.MODULE_MEDIA_TYPE\<close> is not part of the
  sources; its entries 1 to 5 are taken to be the five media-type names that
  \<^verbatim>\<open>get_module_media_interface\<close> compares the same field with. \<open>appl_entry\<close> is one turn of
  the loop: \<open>None\<close> where the source has \<^verbatim>\<open>continue\<close>. The result maps an application number
  to its entry. \<^verbatim>\<open>dict.get\<close> raises \<^verbatim>\<open>TypeError\<close> for an unhashable key, here a media type
  that is a dictionary. \<^verbatim>\<open>dic.update(x)\<close> raises \<^verbatim>\<open>AttributeError\<close> when \<^verbatim>\<open>dic\<close> is not a
  dictionary and \<^verbatim>\<open>TypeError\<close> when \<^verbatim>\<open>x\<close> is \<^verbatim>\<open>None\<close> or a number, both caught; for a string \<^verbatim>\<open>x\<close>
  it does nothing when \<^verbatim>\<open>x\<close> is empty and raises \<^verbatim>\<open>ValueError\<close> otherwise.
\<close>

definition media_interface_map :: "(string \<times> string) list" where
  "media_interface_map =
     [(''nm_850_media_interface'', MODULE_MEDIA_INTERFACE_850NM),
      (''sm_media_interface'', MODULE_MEDIA_INTERFACE_SM),
      (''passive_copper_media_interface'', MODULE_MEDIA_INTERFACE_PASSIVE_COPPER),
      (''active_cable_media_interface'', MODULE_MEDIA_INTERFACE_ACTIVE_CABLE),
      (''base_t_media_interface'', MODULE_MEDIA_INTERFACE_BASE_T)]"

definition appl_key :: "string \<Rightarrow> int \<Rightarrow> string" where
  "appl_key name app = name @ ''_'' @ str_int app"

definition appl_entry :: "pydict \<Rightarrow> string option \<Rightarrow> int \<Rightarrow> pydict option" where
  "appl_entry dic prefix app =
     (let val1 = dict_get dic (appl_key HOST_ELECTRICAL_INTERFACE app) in
      if val1 = PNone \<or> val1 = PStr ''Unknown'' \<or> val1 = PStr ''Undefined'' then None
      else case prefix of
        None \<Rightarrow> None
      | Some pre \<Rightarrow>
          let val2 = dict_get dic (appl_key pre app) in
          if val2 = PNone \<or> val2 = PStr ''Unknown'' then None
          else let val3 = dict_get dic (appl_key MEDIA_LANE_COUNT app) in
          if val3 = PNone then None
          else let val4 = dict_get dic (appl_key HOST_LANE_COUNT app) in
          if val4 = PNone then None
          else let val5 = dict_get dic (appl_key HOST_LANE_ASSIGNMENT_OPTION app) in
          if val5 = PNone then None
          else let val6 = dict_get dic (appl_key MEDIA_LANE_ASSIGNMENT_OPTION app) in
            Some ([(''host_electrical_interface_id'', val1),
                   (''module_media_interface_id'', val2),
                   (''media_lane_count'', val3),
                   (''host_lane_count'', val4),
                   (''host_lane_assignment_options'', val5)]
                  @ (if val6 \<noteq> PNone then [(''media_lane_assignment_options'', val6)] else [])))"

type_synonym appl_advt = "(int \<times> pydict) list"

definition appl_scan :: "cmis_api \<Rightarrow> pyval \<Rightarrow> exn + appl_advt" where
  "appl_scan self dic =
     (let media_type = rd self MEDIA_TYPE_FIELD in
      ebind (case media_type of
               PDict d \<Rightarrow> Inl TypeError
             | PStr s \<Rightarrow> Inr (map_of media_interface_map s)
             | _ \<Rightarrow> Inr None) (\<lambda>prefix.
        case dic of
          PDict d \<Rightarrow>
            Inr (concat (map (\<lambda>app. case appl_entry d prefix app of
                                      None \<Rightarrow> []
                                    | Some buf \<Rightarrow> [(app, buf)]) [1..15]))
        | _ \<Rightarrow> Inl AttributeError))"

definition get_application_advertisement :: "cmis_api \<Rightarrow> exn + appl_advt" where
  "get_application_advertisement self =
     (let dic = rd self APPLS_ADVT_FIELD in
      if \<not> py_truthy dic then Inr []
      else if \<not> is_flat_memory self then
        (case dic of
           PDict d \<Rightarrow>
             (case rd self APPLS_ADVT_FIELD_PAGE01 of
                PDict d2 \<Rightarrow> appl_scan self (PDict (dict_update d d2))
              | PStr s \<Rightarrow> if s = [] then appl_scan self dic else Inl ValueError
              | _ \<Rightarrow> Inr [])
         | _ \<Rightarrow> Inr [])
      else appl_scan self dic)"

text \<open>The three getters that index the advertisement, with the source's parameter \<open>appl\<close>.\<close>

definition get_media_lane_count :: "cmis_api \<Rightarrow> int \<Rightarrow> exn + pyval" where
  "get_media_lane_count self appl =
     (if is_flat_memory self then Inr (PInt 0)
      else if appl \<le> 0 then Inr (PInt 0)
      else ebind (get_application_advertisement self) (\<lambda>appl_advt.
        if int (length appl_advt) \<ge> appl
        then (case map_of appl_advt appl of
                None \<Rightarrow> Inl KeyError
              | Some buf \<Rightarrow> py_getitem (PDict buf) ''media_lane_count'')
        else Inr (PInt 0)))"

definition get_host_lane_assignment_option :: "cmis_api \<Rightarrow> int \<Rightarrow> exn + pyval" where
  "get_host_lane_assignment_option self appl =
     (if appl \<le> 0 then Inr (PInt 0)
      else ebind (get_application_advertisement self) (\<lambda>appl_advt.
        case map_of appl_advt appl of
          None \<Rightarrow> Inr (PInt 0)
        | Some buf \<Rightarrow>
            Inr (case map_of buf ''host_lane_assignment_options'' of
                   None \<Rightarrow> PInt 0 | Some v \<Rightarrow> v)))"

definition get_media_lane_assignment_option :: "cmis_api \<Rightarrow> int \<Rightarrow> exn + pyval" where
  "get_media_lane_assignment_option self appl =
     (if is_flat_memory self then Inr NA
      else if appl \<le> 0 then Inr (PInt 0)
      else ebind (get_application_advertisement self) (\<lambda>appl_advt.
        if int (length appl_advt) \<ge> appl
        then (case map_of appl_advt appl of
                None \<Rightarrow> Inl KeyError
              | Some buf \<Rightarrow> py_getitem (PDict buf) ''media_lane_assignment_options'')
        else Inr (PInt 0)))"

text \<open>
  \<^verbatim>\<open>get_active_apsel_hostlane\<close> returns \<^verbatim>\<open>defaultdict(lambda: 'N/A')\<close>, whose every lookup
  yields \<^verbatim>\<open>'N/A'\<close>, for flat memory or a falsy read, and the value read otherwise.
\<close>

datatype apsel = DefaultDictNA | ActiveApselCode pyval

definition get_active_apsel_hostlane :: "cmis_api \<Rightarrow> apsel" where
  "get_active_apsel_hostlane self =
     (if is_flat_memory self then DefaultDictNA
      else let active_apsel_code = rd self ACTIVE_APSEL_CODE in
        if \<not> py_truthy active_apsel_code then DefaultDictNA
        else ActiveApselCode active_apsel_code)"

fun apsel_getitem :: "apsel \<Rightarrow> string \<Rightarrow> exn + pyval" where
  "apsel_getitem DefaultDictNA k = Inr NA"
| "apsel_getitem (ActiveApselCode v) k = py_getitem v k"

text \<open>
  \<^verbatim>\<open>get_transceiver_info\<close>: \<^verbatim>\<open>None\<close> when the read of the administrative group fails;
  otherwise the default dictionary is updated with the entries below, evaluated in the
  order written, then with the eight active application codes; the result is \<^verbatim>\<open>None\<close> if
  any value of the dictionary is \<^verbatim>\<open>None\<close>, and the dictionary otherwise.
\<close>

definition get_transceiver_info :: "py_ext \<Rightarrow> cmis_api \<Rightarrow> exn + pydict option" where
  "get_transceiver_info py self =
     (let admin_info = rd self ADMIN_INFO_FIELD in
      if admin_info = PNone then Inr None
      else
        ebind (py_getitem admin_info EXT_ID_FIELD) (\<lambda>ext_id.
        ebind (py_getitem ext_id POWER_CLASS_FIELD) (\<lambda>power_class.
        ebind (py_getitem ext_id MAX_POWER_FIELD) (\<lambda>max_power.
        ebind (edict
          [(''type'', py_getitem admin_info ID_FIELD),
           (''type_abbrv_name'', py_getitem admin_info ID_ABBRV_FIELD),
           (''hardware_rev'', Inr (PStr (get_module_hardware_revision py self))),
           (''serial'', ebind (py_getitem admin_info VENDOR_SERIAL_NO_FIELD)
                          (\<lambda>v. Inr (strip_str v))),
           (''manufacturer'', ebind (py_getitem admin_info VENDOR_NAME_FIELD)
                                (\<lambda>v. Inr (strip_str v))),
           (''model'', ebind (py_getitem admin_info VENDOR_PART_NO_FIELD)
                         (\<lambda>v. Inr (strip_str v))),
           (''connector'', py_getitem admin_info CONNECTOR_FIELD),
           (''ext_identifier'',
              Inr (PStr (py_str py power_class @ '' ('' @ py_str py max_power @ ''W Max)''))),
           (''cable_length'', ebind (py_getitem admin_info LENGTH_ASSEMBLY_FIELD)
                                (\<lambda>v. ebind (py_float py v) (\<lambda>f. Inr (float_val f)))),
           (''vendor_date'', ebind (py_getitem admin_info VENDOR_DATE_FIELD)
                               (\<lambda>v. Inr (strip_str v))),
           (''vendor_oui'', py_getitem admin_info VENDOR_OUI_FIELD),
           (''application_advertisement'',
              ebind (get_application_advertisement self) (\<lambda>advt.
                if length advt > 0
                then ebind (get_application_advertisement self)
                       (\<lambda>advt'. Inr (PStr (str_appl_advt py advt')))
                else Inr NA)),
           (''host_electrical_interface'', Inr (get_host_electrical_interface self)),
           (''media_interface_code'', Inr (get_module_media_interface self)),
           (''host_lane_count'', Inr (get_host_lane_count self)),
           (''media_lane_count'', get_media_lane_count self 1),
           (''host_lane_assignment_option'', get_host_lane_assignment_option self 1),
           (''media_lane_assignment_option'', get_media_lane_assignment_option self 1),
           (''cable_type'', Inr (get_cable_length_type self)),
           (''media_interface_technology'', Inr (get_media_interface_technology self)),
           (''vendor_rev'', Inr (strip_str (get_vendor_rev self))),
           (''cmis_rev'', Inr (PStr (get_cmis_rev py self))),
           (''specification_compliance'', Inr (get_module_media_type self)),
           (''vdm_supported'', Inr (is_transceiver_vdm_supported self))]) (\<lambda>entries.
          let xcvr_info = dict_update CMIS_XCVR_INFO_DEFAULT_DICT entries;
              apsel_dict = get_active_apsel_hostlane self
          in ebind (efold (\<lambda>lane info.
                      ebind (apsel_getitem apsel_dict (ACTIVE_APSEL_HOSTLANE @ str_nat lane))
                        (\<lambda>v. Inr (dict_set info (''active_apsel_hostlane'' @ str_nat lane) v)))
                    lanes_1_to_8 xcvr_info) (\<lambda>xcvr_info.
               if PNone \<in> set (map snd xcvr_info) then Inr None
               else Inr (Some xcvr_info)))))))"

section \<open>Example modules\<close>

text \<open>
  Concrete inputs on which the theorems below are instantiated. \<open>example_module regs\<close> is
  a driver instance over a register store that returns \<open>regs\<close>, fails every other read,
  accepts every write, and has issued none; it has no VDM or CDB handle. \<open>example_ext\<close>
  takes \<^verbatim>\<open>mw_to_dbm\<close> and the three-decimal rendering as the identity, and parses the two
  strings \<^verbatim>\<open>'50'\<close> and \<^verbatim>\<open>'inf'\<close>.
\<close>

definition example_eeprom :: "(string \<times> pyval) list \<Rightarrow> xcvr_eeprom" where
  "example_eeprom regs =
     \<lparr>mem = (\<lambda>f. case map_of regs f of None \<Rightarrow> PNone | Some v \<Rightarrow> v),
      write_ok = (\<lambda>f. True), wlog = []\<rparr>"

definition example_module :: "(string \<times> pyval) list \<Rightarrow> cmis_api" where
  "example_module regs =
     \<lparr>xcvr_eeprom = example_eeprom regs, vdm = None, cdb = None, cdb_log = []\<rparr>"

definition example_ext :: py_ext where
  "example_ext =
     \<lparr>mw_to_dbm = Inr, fmt3 = Inr,
      float_of_str = (\<lambda>s. if s = ''50'' then Some (Finite 50)
                          else if s = ''inf'' then Some (NonFinite PosInf) else None),
      str_other = (\<lambda>v. ''?''),
      str_appl_advt = (\<lambda>a. ''{}''), pow2_float = (\<lambda>r. Inr 1)\<rparr>"

definition module_cmis3 :: cmis_api where
  "module_cmis3 = example_module [(CMIS_MAJOR_REVISION, PInt 3), (DATAPATH_DEINIT_FIELD, PInt 0)]"

definition module_cmis4 :: cmis_api where
  "module_cmis4 = example_module [(CMIS_MAJOR_REVISION, PInt 4), (DATAPATH_DEINIT_FIELD, PInt 0xff)]"

definition module_cmis5 :: cmis_api where
  "module_cmis5 = example_module [(CMIS_MAJOR_REVISION, PInt 5), (DATAPATH_DEINIT_FIELD, PInt 0xa5)]"

definition module_loopback :: cmis_api where
  "module_loopback =
     example_module
       [(FLAT_MEM_FIELD, PBool False), (LOOPBACK_CAPABILITY, PInt 0x4f),
        (HOST_INPUT_LOOPBACK, PInt 0), (HOST_OUTPUT_LOOPBACK, PInt 0),
        (MEDIA_INPUT_LOOPBACK, PInt 0), (MEDIA_OUTPUT_LOOPBACK, PInt 0)]"

definition module_duration :: "pyval \<Rightarrow> cmis_api" where
  "module_duration raw =
     example_module [(FLAT_MEM_FIELD, PBool False), (DP_PATH_INIT_DURATION, raw)]"

text \<open>
  A module whose every register read fails, constructed with collaborators that would
  answer with an empty VDM structure and with CDB status 1.
\<close>

definition example_vdm :: cmis_vdm_api where
  "example_vdm = \<lparr>get_vdm_allpage = (\<lambda>fo. VDict [])\<rparr>"

definition cdb_always :: "int \<Rightarrow> cmis_cdb_api" where
  "cdb_always st =
     \<lparr>respond = (\<lambda>hist cmd. \<lparr>cdb_status = st, cdb_rpllen = None, cdb_rpl_chkcode = None,
                              cdb_rpl = []\<rparr>),
      cdb_chkcode = (\<lambda>payload. 0)\<rparr>"

definition module_flat_read_failed :: cmis_api where
  "module_flat_read_failed = init (example_eeprom []) example_vdm (cdb_always 1)"

text \<open>
  A module whose CDB answers every command with status 70 (password required), and one
  whose CDB answers 70 to the start-download command only and 1 to every other command.
  \<open>example_files\<close> holds one six-byte image.
\<close>

definition module_with_cdb :: "cmis_cdb_api \<Rightarrow> cmis_api" where
  "module_with_cdb c =
     \<lparr>xcvr_eeprom = example_eeprom [(FLAT_MEM_FIELD, PBool False)],
      vdm = Some example_vdm, cdb = Some c, cdb_log = []\<rparr>"

definition cdb_start_refused :: cmis_cdb_api where
  "cdb_start_refused =
     \<lparr>respond = (\<lambda>hist cmd. \<lparr>cdb_status = (case cmd of StartFwDownload n d s \<Rightarrow> 70 | _ \<Rightarrow> 1),
                              cdb_rpllen = None, cdb_rpl_chkcode = None, cdb_rpl = []\<rparr>),
      cdb_chkcode = (\<lambda>payload. 0)\<rparr>"

definition example_files :: "string \<Rightarrow> byte list option" where
  "example_files path = (if path = ''fw.bin'' then Some [1, 2, 3, 4, 5, 6] else None)"





text \<open>
  The verdict of the bank switch as the specification words it, over the flags captured
  before and after: a bank that was running is still running, or neither bank was valid
  at the outset. A valid flag of 0 marks a valid image.
\<close>

definition still_running :: "fw_images \<Rightarrow> fw_images \<Rightarrow> bool" where
  "still_running before after =
     ((ImageARunning before = 1 \<and> ImageARunning after = 1) \<or>
      (ImageBRunning before = 1 \<and> ImageBRunning after = 1))"

definition both_valid :: "fw_images \<Rightarrow> bool" where
  "both_valid flags = (ImageAValid flags = 0 \<and> ImageBValid flags = 0)"

definition neither_valid :: "fw_images \<Rightarrow> bool" where
  "neither_valid flags = (ImageAValid flags \<noteq> 0 \<and> ImageBValid flags \<noteq> 0)"

definition spec_switch_fails :: "fw_images \<Rightarrow> fw_images \<Rightarrow> bool" where
  "spec_switch_fails before after = (still_running before after \<or> neither_valid before)"

text \<open>
  Three CDB collaborators that answer the firmware-info query with status 1 and a
  matching checksum. The first reports bank A valid and bank B invalid, with neither
  bank running (the module runs its factory image). The second reports both banks valid
  and bank A running until a run command has been issued, bank B running afterwards. The
  third reports both banks valid and bank A running throughout.
\<close>

definition fw_info_reply :: "byte list \<Rightarrow> cdb_reply" where
  "fw_info_reply payload =
     \<lparr>cdb_status = 1, cdb_rpllen = Some (int (length payload)), cdb_rpl_chkcode = Some 0,
      cdb_rpl = payload\<rparr>"

definition cdb_bank_b_invalid :: cmis_cdb_api where
  "cdb_bank_b_invalid =
     \<lparr>respond = (\<lambda>hist cmd. fw_info_reply [0x40, 0, 1, 2, 0, 3]),
      cdb_chkcode = (\<lambda>payload. 0)\<rparr>"

definition cdb_switching :: cmis_cdb_api where
  "cdb_switching =
     \<lparr>respond = (\<lambda>hist cmd.
        fw_info_reply ((if RunFwImage 1 \<in> set hist then 0x30 else 0x03) # replicate 41 0)),
      cdb_chkcode = (\<lambda>payload. 0)\<rparr>"

definition cdb_stuck :: cmis_cdb_api where
  "cdb_stuck =
     \<lparr>respond = (\<lambda>hist cmd. fw_info_reply (0x03 # replicate 41 0)),
      cdb_chkcode = (\<lambda>payload. 0)\<rparr>"

definition flags_bank_b_invalid :: fw_images where
  "flags_bank_b_invalid =
     \<lparr>ImageA = ''1.2.3'', ImageARunning = 0, ImageACommitted = 0, ImageAValid = 0,
      ImageB = ''N/A'', ImageBRunning = 0, ImageBCommitted = 0, ImageBValid = 1,
      ActiveFirmware = ''N/A'', InactiveFirmware = ''N/A''\<rparr>"

definition flags_a_running :: fw_images where
  "flags_a_running =
     \<lparr>ImageA = ''0.0.0'', ImageARunning = 1, ImageACommitted = 1, ImageAValid = 0,
      ImageB = ''0.0.0'', ImageBRunning = 0, ImageBCommitted = 0, ImageBValid = 0,
      ActiveFirmware = ''0.0.0'', InactiveFirmware = ''0.0.0''\<rparr>"

definition flags_b_running :: fw_images where
  "flags_b_running =
     \<lparr>ImageA = ''0.0.0'', ImageARunning = 0, ImageACommitted = 0, ImageAValid = 0,
      ImageB = ''0.0.0'', ImageBRunning = 1, ImageBCommitted = 1, ImageBValid = 0,
      ActiveFirmware = ''0.0.0'', InactiveFirmware = ''0.0.0''\<rparr>"

text \<open>
  The value the specification gives an output key of the VDM aggregation: what the lookup
  finds, and \<^verbatim>\<open>'N/A'\<close> when the lookup finds nothing. \<open>vdm_index_safe\<close> holds of a raw
  structure in which none of the lookups of the given subtypes, over the observables of
  the prefix map and the eight lanes, runs past the end of a sequence.
\<close>

definition vdm_resolved :: "vdm_raw \<Rightarrow> string \<Rightarrow> int \<Rightarrow> VdmSubtypeIndex \<Rightarrow> vdm_raw" where
  "vdm_resolved vdm_raw_dict vdm_observable_type lane vdm_subtype_index =
     (case vdm_lookup vdm_raw_dict vdm_observable_type lane vdm_subtype_index of
        Inr v \<Rightarrow> v
      | Inl e \<Rightarrow> VStr ''N/A'')"

definition vdm_index_safe :: "vdm_raw \<Rightarrow> VdmSubtypeIndex list \<Rightarrow> bool" where
  "vdm_index_safe vdm_raw_dict subtypes =
     list_all (\<lambda>(vdm_observable_type, db_key_name_prefix).
       list_all (\<lambda>lane.
         list_all (\<lambda>vdm_subtype_index.
           vdm_lookup vdm_raw_dict vdm_observable_type (int lane) vdm_subtype_index
             \<noteq> Inl IndexError) subtypes) lanes_1_to_8)
       CMIS_VDM_KEY_TO_DB_PREFIX_KEY_MAP"

text \<open>
  Two VDM collaborators. The first reports, for the laser temperature on lane 1, a
  sequence with no subtype entry at all. The second reports the laser temperature on
  lane 1 only, with all nine subtype entries; a number where the lanes of the media eSNR
  should be; and \<^verbatim>\<open>None\<close> where the subtypes of lane 1 of the host eSNR should be.
\<close>

definition vdm_short_sequence :: cmis_vdm_api where
  "vdm_short_sequence =
     \<lparr>get_vdm_allpage = (\<lambda>fo.
        VDict [(KStr ''Laser Temperature [C]'', VDict [(KInt 1, VList [])])])\<rparr>"

definition vdm_partial_raw :: vdm_raw where
  "vdm_partial_raw =
     VDict [(KStr ''Laser Temperature [C]'',
               VDict [(KInt 1, VList [VFloat 25, VFloat 80, VFloat (- 5), VFloat 75, VFloat 0,
                                      VBool False, VBool True, VBool False, VBool False])]),
            (KStr ''eSNR Media Input [dB]'', VFloat 3),
            (KStr ''eSNR Host Input [dB]'', VDict [(KInt 1, VNone)])]"

definition vdm_partial :: cmis_vdm_api where
  "vdm_partial = \<lparr>get_vdm_allpage = (\<lambda>fo. vdm_partial_raw)\<rparr>"

definition module_with_vdm :: "cmis_vdm_api \<Rightarrow> cmis_api" where
  "module_with_vdm v =
     \<lparr>xcvr_eeprom = example_eeprom [(FLAT_MEM_FIELD, PBool False)],
      vdm = Some v, cdb = None, cdb_log = []\<rparr>"

section \<open>Datapath polarity and frame\<close>

lemma lanes_0_to_7: "[0..<8] = [0, 1, 2, 3, 4, 5, 6, 7::nat]"
  by (simp add: upt_conv_Cons)

lemma lanes_1_to_8_list: "[1..<9] = [1, 2, 3, 4, 5, 6, 7, 8::nat]"
  by (simp add: upt_conv_Cons)

lemma lane_selected: "((2::int) ^ lane AND channel = 0) = (\<not> bit channel lane)"
  by (simp add: and.commute and_exp_eq_0_iff_not_bit)

lemma datapath_init_lanes_int:
  "\<exists>d'. datapath_init_lanes (PInt major) channel (PInt d) lanes = Inr (PInt d') \<and>
        (\<forall>n. bit d' n = (if n \<in> set lanes \<and> bit channel n then major < 4 else bit d n))"
proof (induction lanes arbitrary: d)
  case Nil
  then show ?case by simp
next
  case (Cons lane lanes)
  show ?case
  proof (cases "bit channel lane")
    case False
    from Cons[of d] obtain d' where
      d': "datapath_init_lanes (PInt major) channel (PInt d) lanes = Inr (PInt d')"
      "\<And>n. bit d' n = (if n \<in> set lanes \<and> bit channel n then major < 4 else bit d n)"
      by blast
    have "datapath_init_lanes (PInt major) channel (PInt d) (lane # lanes) = Inr (PInt d')"
      using False d'(1) by (simp add: lane_selected)
    moreover have "\<forall>n. bit d' n =
        (if n \<in> set (lane # lanes) \<and> bit channel n then major < 4 else bit d n)"
      using False d'(2) by auto
    ultimately show ?thesis by blast
  next
    case True
    define d1 where "d1 = (if 4 \<le> major then d AND NOT (2 ^ lane) else d OR 2 ^ lane)"
    from Cons[of d1] obtain d' where
      d': "datapath_init_lanes (PInt major) channel (PInt d1) lanes = Inr (PInt d')"
      "\<And>n. bit d' n = (if n \<in> set lanes \<and> bit channel n then major < 4 else bit d1 n)"
      by blast
    have "datapath_init_lanes (PInt major) channel (PInt d) (lane # lanes) = Inr (PInt d')"
      using True d'(1) by (cases "4 \<le> major") (simp_all add: lane_selected ebind_def d1_def)
    moreover have "\<forall>n. bit d' n =
        (if n \<in> set (lane # lanes) \<and> bit channel n then major < 4 else bit d n)"
      using True d'(2)
      by (auto simp: d1_def bit_and_iff bit_or_iff bit_not_iff bit_exp_iff)
    ultimately show ?thesis by blast
  qed
qed

lemma datapath_deinit_lanes_int:
  "\<exists>d'. datapath_deinit_lanes (PInt major) channel (PInt d) lanes = Inr (PInt d') \<and>
        (\<forall>n. bit d' n = (if n \<in> set lanes \<and> bit channel n then 4 \<le> major else bit d n))"
proof (induction lanes arbitrary: d)
  case Nil
  then show ?case by simp
next
  case (Cons lane lanes)
  show ?case
  proof (cases "bit channel lane")
    case False
    from Cons[of d] obtain d' where
      d': "datapath_deinit_lanes (PInt major) channel (PInt d) lanes = Inr (PInt d')"
      "\<And>n. bit d' n = (if n \<in> set lanes \<and> bit channel n then 4 \<le> major else bit d n)"
      by blast
    have "datapath_deinit_lanes (PInt major) channel (PInt d) (lane # lanes) = Inr (PInt d')"
      using False d'(1) by (simp add: lane_selected)
    moreover have "\<forall>n. bit d' n =
        (if n \<in> set (lane # lanes) \<and> bit channel n then 4 \<le> major else bit d n)"
      using False d'(2) by auto
    ultimately show ?thesis by blast
  next
    case True
    define d1 where "d1 = (if 4 \<le> major then d OR 2 ^ lane else d AND NOT (2 ^ lane))"
    from Cons[of d1] obtain d' where
      d': "datapath_deinit_lanes (PInt major) channel (PInt d1) lanes = Inr (PInt d')"
      "\<And>n. bit d' n = (if n \<in> set lanes \<and> bit channel n then 4 \<le> major else bit d1 n)"
      by blast
    have "datapath_deinit_lanes (PInt major) channel (PInt d) (lane # lanes) = Inr (PInt d')"
      using True d'(1) by (cases "4 \<le> major") (simp_all add: lane_selected ebind_def d1_def)
    moreover have "\<forall>n. bit d' n =
        (if n \<in> set (lane # lanes) \<and> bit channel n then 4 \<le> major else bit d n)"
      using True d'(2)
      by (auto simp: d1_def bit_and_iff bit_or_iff bit_not_iff bit_exp_iff)
    ultimately show ?thesis by blast
  qed
qed

lemma wlog_wr:
  "wlog (xcvr_eeprom (snd (wr self f v))) = wlog (xcvr_eeprom self) @ [(f, v)]"
  by (simp add: wr_def eeprom_write_def)

lemma set_datapath_init_int:
  assumes "rd self CMIS_MAJOR_REVISION = PInt major"
    and "rd self DATAPATH_DEINIT_FIELD = PInt data"
  shows "\<exists>d. set_datapath_init self channel = Inr (snd (wr self DATAPATH_DEINIT_FIELD (PInt d))) \<and>
             (\<forall>n. bit d n = (if n < NUM_CHANNELS \<and> bit channel n then major < 4 else bit data n))"
proof -
  from datapath_init_lanes_int[of major channel data "[0..<NUM_CHANNELS]"] obtain d where
    d: "datapath_init_lanes (PInt major) channel (PInt data) [0..<NUM_CHANNELS] = Inr (PInt d)"
    "\<And>n. bit d n = (if n \<in> set [0..<NUM_CHANNELS] \<and> bit channel n then major < 4 else bit data n)"
    by blast
  have "set_datapath_init self channel = Inr (snd (wr self DATAPATH_DEINIT_FIELD (PInt d)))"
    using assms d(1) by (simp add: set_datapath_init_def ebind_def)
  moreover have "\<forall>n. bit d n = (if n < NUM_CHANNELS \<and> bit channel n then major < 4 else bit data n)"
    using d(2) by simp
  ultimately show ?thesis by blast
qed

lemma set_datapath_deinit_int:
  assumes "rd self CMIS_MAJOR_REVISION = PInt major"
    and "rd self DATAPATH_DEINIT_FIELD = PInt data"
  shows "\<exists>d. set_datapath_deinit self channel = Inr (snd (wr self DATAPATH_DEINIT_FIELD (PInt d))) \<and>
             (\<forall>n. bit d n = (if n < NUM_CHANNELS \<and> bit channel n then 4 \<le> major else bit data n))"
proof -
  from datapath_deinit_lanes_int[of major channel data "[0..<NUM_CHANNELS]"] obtain d where
    d: "datapath_deinit_lanes (PInt major) channel (PInt data) [0..<NUM_CHANNELS] = Inr (PInt d)"
    "\<And>n. bit d n = (if n \<in> set [0..<NUM_CHANNELS] \<and> bit channel n then 4 \<le> major else bit data n)"
    by blast
  have "set_datapath_deinit self channel = Inr (snd (wr self DATAPATH_DEINIT_FIELD (PInt d)))"
    using assms d(1) by (simp add: set_datapath_deinit_def ebind_def)
  moreover have "\<forall>n. bit d n = (if n < NUM_CHANNELS \<and> bit channel n then 4 \<le> major else bit data n)"
    using d(2) by simp
  ultimately show ?thesis by blast
qed

text \<open>
  C2. With the CMIS major revision and the register both read as integers,
  \<^verbatim>\<open>set_datapath_init\<close> and \<^verbatim>\<open>set_datapath_deinit\<close> each write one integer back to the
  datapath-deinit register. For every lane below 8 selected in the mask: when the major
  revision is at least 4, init clears the lane's bit and deinit sets it; when the major
  revision is 3, init sets the bit and deinit clears it.
\<close>

theorem datapath_polarity:
  assumes "rd self CMIS_MAJOR_REVISION = PInt major"
    and "rd self DATAPATH_DEINIT_FIELD = PInt data"
  shows "\<exists>d_init d_deinit.
           set_datapath_init self channel
             = Inr (snd (wr self DATAPATH_DEINIT_FIELD (PInt d_init))) \<and>
           set_datapath_deinit self channel
             = Inr (snd (wr self DATAPATH_DEINIT_FIELD (PInt d_deinit))) \<and>
           (\<forall>lane. lane < NUM_CHANNELS \<and> bit channel lane \<longrightarrow>
              (4 \<le> major \<longrightarrow> \<not> bit d_init lane \<and> bit d_deinit lane) \<and>
              (major = 3 \<longrightarrow> bit d_init lane \<and> \<not> bit d_deinit lane))"
proof -
  from set_datapath_init_int[OF assms, of channel] obtain di where
    di: "set_datapath_init self channel = Inr (snd (wr self DATAPATH_DEINIT_FIELD (PInt di)))"
    "\<And>n. bit di n = (if n < NUM_CHANNELS \<and> bit channel n then major < 4 else bit data n)"
    by blast
  from set_datapath_deinit_int[OF assms, of channel] obtain dd where
    dd: "set_datapath_deinit self channel = Inr (snd (wr self DATAPATH_DEINIT_FIELD (PInt dd)))"
    "\<And>n. bit dd n = (if n < NUM_CHANNELS \<and> bit channel n then 4 \<le> major else bit data n)"
    by blast
  have "\<forall>lane. lane < NUM_CHANNELS \<and> bit channel lane \<longrightarrow>
          (4 \<le> major \<longrightarrow> \<not> bit di lane \<and> bit dd lane) \<and>
          (major = 3 \<longrightarrow> bit di lane \<and> \<not> bit dd lane)"
    by (simp add: di(2) dd(2))
  with di(1) dd(1) show ?thesis by blast
qed

lemma module_cmis3_reads:
  "rd module_cmis3 CMIS_MAJOR_REVISION = PInt 3" "rd module_cmis3 DATAPATH_DEINIT_FIELD = PInt 0"
  by (simp_all add: module_cmis3_def example_module_def example_eeprom_def rd_def eeprom_read_def)

lemma module_cmis4_reads:
  "rd module_cmis4 CMIS_MAJOR_REVISION = PInt 4" "rd module_cmis4 DATAPATH_DEINIT_FIELD = PInt 255"
  by (simp_all add: module_cmis4_def example_module_def example_eeprom_def rd_def eeprom_read_def)

theorem datapath_polarity_witness:
  "(\<exists>d_init d_deinit.
      set_datapath_init module_cmis3 5
        = Inr (snd (wr module_cmis3 DATAPATH_DEINIT_FIELD (PInt d_init))) \<and>
      set_datapath_deinit module_cmis3 5
        = Inr (snd (wr module_cmis3 DATAPATH_DEINIT_FIELD (PInt d_deinit))) \<and>
      bit d_init 0 \<and> bit d_init 2 \<and> \<not> bit d_deinit 0 \<and> \<not> bit d_deinit 2) \<and>
   (\<exists>d_init d_deinit.
      set_datapath_init module_cmis4 5
        = Inr (snd (wr module_cmis4 DATAPATH_DEINIT_FIELD (PInt d_init))) \<and>
      set_datapath_deinit module_cmis4 5
        = Inr (snd (wr module_cmis4 DATAPATH_DEINIT_FIELD (PInt d_deinit))) \<and>
      \<not> bit d_init 0 \<and> \<not> bit d_init 2 \<and> bit d_deinit 0 \<and> bit d_deinit 2)"
proof -
  have five: "bit (5::int) 0" "bit (5::int) 2"
    by (simp_all add: bit_iff_odd)
  from datapath_polarity[OF module_cmis3_reads, of 5] obtain a b where
    ab: "set_datapath_init module_cmis3 5 = Inr (snd (wr module_cmis3 DATAPATH_DEINIT_FIELD (PInt a)))"
      "set_datapath_deinit module_cmis3 5 = Inr (snd (wr module_cmis3 DATAPATH_DEINIT_FIELD (PInt b)))"
      "\<And>lane. lane < NUM_CHANNELS \<and> bit (5::int) lane \<Longrightarrow> bit a lane \<and> \<not> bit b lane"
    by auto
  from datapath_polarity[OF module_cmis4_reads, of 5] obtain c d where
    cd: "set_datapath_init module_cmis4 5 = Inr (snd (wr module_cmis4 DATAPATH_DEINIT_FIELD (PInt c)))"
      "set_datapath_deinit module_cmis4 5 = Inr (snd (wr module_cmis4 DATAPATH_DEINIT_FIELD (PInt d)))"
      "\<And>lane. lane < NUM_CHANNELS \<and> bit (5::int) lane \<Longrightarrow> \<not> bit c lane \<and> bit d lane"
    by auto
  have "bit a 0 \<and> bit a 2 \<and> \<not> bit b 0 \<and> \<not> bit b 2"
    using ab(3)[of 0] ab(3)[of 2] five by (simp add: NUM_CHANNELS_def)
  moreover have "\<not> bit c 0 \<and> \<not> bit c 2 \<and> bit d 0 \<and> bit d 2"
    using cd(3)[of 0] cd(3)[of 2] five by (simp add: NUM_CHANNELS_def)
  ultimately show ?thesis using ab(1,2) cd(1,2) by blast
qed

text \<open>
  The two runs of the specification's example, evaluated: with major revision 3 and the
  register at 0, init with mask \<open>0b101\<close> writes 5; with major revision 4 and the register
  at \<open>0xff\<close>, the same call writes \<open>0xfa\<close>.
\<close>

lemma datapath_init_examples:
  "map_sum id (\<lambda>s. wlog (xcvr_eeprom s)) (set_datapath_init module_cmis3 5)
     = Inr [(DATAPATH_DEINIT_FIELD, PInt 5)]"
  "map_sum id (\<lambda>s. wlog (xcvr_eeprom s)) (set_datapath_init module_cmis4 5)
     = Inr [(DATAPATH_DEINIT_FIELD, PInt 0xfa)]"
  by (simp_all add: set_datapath_init_def module_cmis3_def module_cmis4_def example_module_def
      example_eeprom_def rd_def wr_def eeprom_read_def eeprom_write_def NUM_CHANNELS_def
      ebind_def lanes_0_to_7)

text \<open>
  C10. Both functions perform one read-modify-write of the datapath-deinit register:
  exactly one write is issued, to that register, and the value written agrees with the
  value read in every bit position that is not a lane below 8 selected in the mask.
\<close>

theorem datapath_frame:
  assumes "rd self CMIS_MAJOR_REVISION = PInt major"
    and "rd self DATAPATH_DEINIT_FIELD = PInt data"
  shows "\<exists>self_init d_init self_deinit d_deinit.
           set_datapath_init self channel = Inr self_init \<and>
           wlog (xcvr_eeprom self_init)
             = wlog (xcvr_eeprom self) @ [(DATAPATH_DEINIT_FIELD, PInt d_init)] \<and>
           set_datapath_deinit self channel = Inr self_deinit \<and>
           wlog (xcvr_eeprom self_deinit)
             = wlog (xcvr_eeprom self) @ [(DATAPATH_DEINIT_FIELD, PInt d_deinit)] \<and>
           (\<forall>n. \<not> (n < NUM_CHANNELS \<and> bit channel n) \<longrightarrow>
              bit d_init n = bit data n \<and> bit d_deinit n = bit data n)"
proof -
  from set_datapath_init_int[OF assms, of channel] obtain di where
    di: "set_datapath_init self channel = Inr (snd (wr self DATAPATH_DEINIT_FIELD (PInt di)))"
    "\<And>n. bit di n = (if n < NUM_CHANNELS \<and> bit channel n then major < 4 else bit data n)"
    by blast
  from set_datapath_deinit_int[OF assms, of channel] obtain dd where
    dd: "set_datapath_deinit self channel = Inr (snd (wr self DATAPATH_DEINIT_FIELD (PInt dd)))"
    "\<And>n. bit dd n = (if n < NUM_CHANNELS \<and> bit channel n then 4 \<le> major else bit data n)"
    by blast
  have "\<forall>n. \<not> (n < NUM_CHANNELS \<and> bit channel n) \<longrightarrow>
          bit di n = bit data n \<and> bit dd n = bit data n"
    by (auto simp: di(2) dd(2))
  with di(1) dd(1) show ?thesis
    using wlog_wr[of self DATAPATH_DEINIT_FIELD] by blast
qed

lemma module_cmis5_reads:
  "rd module_cmis5 CMIS_MAJOR_REVISION = PInt 5" "rd module_cmis5 DATAPATH_DEINIT_FIELD = PInt 165"
  by (simp_all add: module_cmis5_def example_module_def example_eeprom_def rd_def eeprom_read_def)

theorem datapath_frame_witness:
  "\<exists>self_init d_init self_deinit d_deinit.
     set_datapath_init module_cmis5 3 = Inr self_init \<and>
     wlog (xcvr_eeprom self_init) = [(DATAPATH_DEINIT_FIELD, PInt d_init)] \<and>
     set_datapath_deinit module_cmis5 3 = Inr self_deinit \<and>
     wlog (xcvr_eeprom self_deinit) = [(DATAPATH_DEINIT_FIELD, PInt d_deinit)] \<and>
     bit d_init 2 \<and> bit d_deinit 2 \<and> \<not> bit d_init 3 \<and> \<not> bit d_deinit 3 \<and>
     \<not> bit d_init 8 \<and> \<not> bit d_deinit 8"
proof -
  have three: "\<not> bit (3::int) 2" "\<not> bit (3::int) 3"
    by (simp_all add: bit_iff_odd)
  have data: "bit (165::int) 2" "\<not> bit (165::int) 3" "\<not> bit (165::int) 8"
    by (simp_all add: bit_iff_odd)
  have empty: "wlog (xcvr_eeprom module_cmis5) = []"
    by (simp add: module_cmis5_def example_module_def example_eeprom_def)
  from datapath_frame[OF module_cmis5_reads, of 3] obtain si di sd dd where
    r: "set_datapath_init module_cmis5 3 = Inr si"
      "wlog (xcvr_eeprom si) = wlog (xcvr_eeprom module_cmis5) @ [(DATAPATH_DEINIT_FIELD, PInt di)]"
      "set_datapath_deinit module_cmis5 3 = Inr sd"
      "wlog (xcvr_eeprom sd) = wlog (xcvr_eeprom module_cmis5) @ [(DATAPATH_DEINIT_FIELD, PInt dd)]"
      "\<And>n. \<not> (n < NUM_CHANNELS \<and> bit (3::int) n) \<Longrightarrow> bit di n = bit (165::int) n \<and> bit dd n = bit (165::int) n"
    by blast
  have "bit di 2 \<and> bit dd 2 \<and> \<not> bit di 3 \<and> \<not> bit dd 3 \<and> \<not> bit di 8 \<and> \<not> bit dd 8"
    using r(5)[of 2] r(5)[of 3] r(5)[of 8] three data by (simp add: NUM_CHANNELS_def)
  with r(1-4) empty show ?thesis by auto
qed

section \<open>Loopback setters\<close>

lemma get_loopback_capability_int:
  assumes "rd self LOOPBACK_CAPABILITY = PInt c"
  shows "get_loopback_capability self =
           Inr (if is_flat_memory self then None
                else Some \<lparr>simultaneous_host_media_loopback_supported = bit c 6,
                           per_lane_media_loopback_supported = bit c 5,
                           per_lane_host_loopback_supported = bit c 4,
                           host_side_input_loopback_supported = bit c 3,
                           host_side_output_loopback_supported = bit c 2,
                           media_side_input_loopback_supported = bit c 1,
                           media_side_output_loopback_supported = bit c 0\<rparr>)"
  using assms by (simp add: get_loopback_capability_def ebind_def)

text \<open>
  C7. Whenever the capability register is read as an integer and the lane mask is not
  \<open>0xff\<close>, each of the four loopback setters, on a module that advertises the setter's
  direction but not per-lane control for its side, returns \<^verbatim>\<open>False\<close> and leaves the driver
  instance as it was: the store is unchanged and no write is logged.
\<close>

theorem loopback_per_lane_refused:
  assumes "rd self LOOPBACK_CAPABILITY = PInt c" and "lane_mask \<noteq> 0xff"
  shows "(bit c 3 \<and> \<not> bit c 4 \<longrightarrow>
            set_host_input_loopback self lane_mask enable = Inr (False, self)) \<and>
         (bit c 2 \<and> \<not> bit c 4 \<longrightarrow>
            set_host_output_loopback self lane_mask enable = Inr (False, self)) \<and>
         (bit c 1 \<and> \<not> bit c 5 \<longrightarrow>
            set_media_input_loopback self lane_mask enable = Inr (False, self)) \<and>
         (bit c 0 \<and> \<not> bit c 5 \<longrightarrow>
            set_media_output_loopback self lane_mask enable = Inr (False, self))"
  using assms(2)
  by (simp add: set_host_input_loopback_def set_host_output_loopback_def
      set_media_input_loopback_def set_media_output_loopback_def
      get_loopback_capability_int[OF assms(1)] ebind_def)

lemma module_loopback_capability: "rd module_loopback LOOPBACK_CAPABILITY = PInt 0x4f"
  by (simp add: module_loopback_def example_module_def example_eeprom_def rd_def eeprom_read_def)

lemma bits_0x4f:
  "bit (0x4f::int) 0" "bit (0x4f::int) 1" "bit (0x4f::int) 2" "bit (0x4f::int) 3"
  "\<not> bit (0x4f::int) 4" "\<not> bit (0x4f::int) 5"
  by (simp_all add: bit_iff_odd)

theorem loopback_per_lane_refused_witness:
  "set_host_input_loopback module_loopback 0x3 True = Inr (False, module_loopback) \<and>
   set_host_output_loopback module_loopback 0x3 True = Inr (False, module_loopback) \<and>
   set_media_input_loopback module_loopback 0x3 True = Inr (False, module_loopback) \<and>
   set_media_output_loopback module_loopback 0x3 True = Inr (False, module_loopback) \<and>
   wlog (xcvr_eeprom module_loopback) = []"
proof -
  have "(3::int) \<noteq> 0xff" by simp
  from loopback_per_lane_refused[OF module_loopback_capability this, of True]
  show ?thesis
    using bits_0x4f
    by (simp add: module_loopback_def example_module_def example_eeprom_def)
qed

text \<open>
  On the same module the mask \<open>0xff\<close> passes the per-lane gate and the write is issued,
  so the refusal above is the gate's doing.
\<close>

lemma loopback_all_lanes_written:
  "map_sum id (\<lambda>(ok, s). (ok, wlog (xcvr_eeprom s)))
     (set_host_input_loopback module_loopback 0xff True)
     = Inr (True, [(HOST_INPUT_LOOPBACK, PInt 0xff)])"
  by (simp add: set_host_input_loopback_def get_loopback_capability_def is_flat_memory_def
      module_loopback_def example_module_def example_eeprom_def rd_def wr_def eeprom_read_def
      eeprom_write_def ebind_def bit_iff_odd)

section \<open>Datapath-init duration\<close>

text \<open>
  Facts about rounding to a double: an integer below \<open>2^53\<close> in magnitude is a double, and
  three roundings worked out, of ten times the double nearest to 0.1, of \<open>2^53 + 1\<close> and of
  \<open>2^1024\<close>.
\<close>

lemma round_half_even_of_int: "round_half_even (of_int k) = k"
  by (simp add: round_half_even_def)

lemma bit_length_bounds:
  "2 ^ k \<le> n \<Longrightarrow> n < 2 ^ Suc k \<Longrightarrow> bit_length n = Suc k"
proof (induction k arbitrary: n)
  case 0
  then have "n = 1" by simp
  then show ?case by (simp add: bit_length.simps)
next
  case (Suc k)
  from Suc.prems have "2 ^ k \<le> n div 2" "n div 2 < 2 ^ Suc k" by simp_all
  from Suc.IH[OF this] Suc.prems show ?case
    by (subst bit_length.simps) (simp add: order.strict_trans2[of 0 "2 ^ Suc k"])
qed

lemma bit_length_le: "n < 2 ^ k \<Longrightarrow> bit_length n \<le> k"
proof (induction k arbitrary: n)
  case 0
  then show ?case by (simp add: bit_length.simps)
next
  case (Suc k)
  from Suc.prems have "n div 2 < 2 ^ k" by simp
  from Suc.IH[OF this] show ?case
    by (subst bit_length.simps) simp
qed

lemma floor_log2_ge1:
  assumes "2 ^ k \<le> \<bar>r\<bar>" and "\<bar>r\<bar> < 2 ^ Suc k"
  shows "floor_log2 r = int k"
proof -
  have "(1::rat) \<le> 2 ^ k" by simp
  with assms(1) have one: "1 \<le> \<bar>r\<bar>" by linarith
  from assms(1) have "of_int (2 ^ k) \<le> \<bar>r\<bar>" by simp
  then have lo: "2 ^ k \<le> \<lfloor>\<bar>r\<bar>\<rfloor>" by (simp only: le_floor_iff)
  from assms(2) have "\<bar>r\<bar> < of_int (2 ^ Suc k)" by simp
  then have hi: "\<lfloor>\<bar>r\<bar>\<rfloor> < 2 ^ Suc k" by (simp only: floor_less_iff)
  from bit_length_bounds[OF lo hi] one show ?thesis
    by (simp add: floor_log2_def)
qed

lemma round_double_int_exact:
  assumes "\<bar>i\<bar> < 2 ^ 53"
  shows "round_double (of_int i) = Finite (of_int i)"
proof (cases "i = 0")
  case True
  then show ?thesis by (simp add: round_double_def)
next
  case False
  let ?r = "of_int i :: rat"
  have abs_r: "\<bar>?r\<bar> = of_int \<bar>i\<bar>" by simp
  from False have one_i: "1 \<le> \<bar>i\<bar>" by linarith
  then have one: "1 \<le> \<bar>?r\<bar>" unfolding abs_r by simp
  have fl: "\<lfloor>\<bar>?r\<bar>\<rfloor> = \<bar>i\<bar>" unfolding abs_r by (rule floor_of_int)
  have bl: "bit_length \<bar>i\<bar> \<le> 53" by (rule bit_length_le[OF assms])
  have pos: "0 < bit_length \<bar>i\<bar>"
    using one_i by (subst bit_length.simps) simp
  define e where "e = floor_log2 ?r"
  have e: "e = int (bit_length \<bar>i\<bar>) - 1"
    unfolding e_def floor_log2_def using one fl by simp
  with bl pos have erange: "0 \<le> e" "e \<le> 52" by simp_all
  define m where "m = nat (52 - e)"
  have q: "ulp e = 1 / 2 ^ m"
    using erange by (auto simp: ulp_def Let_def m_def max_def)
  have "?r / ulp e = of_int (i * 2 ^ m)" by (simp add: q)
  then have rh: "round_half_even (?r / ulp e) = i * 2 ^ m"
    by (simp only: round_half_even_of_int)
  have v: "of_int (i * 2 ^ m) * ulp e = ?r" by (simp add: q)
  from assms have "of_int \<bar>i\<bar> < (of_int (2 ^ 53) :: rat)" by (simp only: of_int_less_iff)
  then have "\<bar>?r\<bar> < 2 ^ 53" by simp
  moreover have "(2::rat) ^ 53 \<le> 2 ^ 1024" by (rule power_increasing) simp_all
  ultimately have small: "\<not> 2 ^ 1024 \<le> \<bar>?r\<bar>" by linarith
  have nz: "?r \<noteq> 0" using False by simp
  show ?thesis
    unfolding round_double_def Let_def e_def[symmetric] rh v
    using nz small by simp
qed

lemma round_double_tenth_times_10:
  "round_double (3602879701896397 / 36028797018963968 * 10) = Finite 1"
proof -
  have fl: "floor_log2 (3602879701896397 / 36028797018963968 * 10) = 0"
    using floor_log2_ge1[of 0 "3602879701896397 / 36028797018963968 * 10"] by simp
  have f: "\<lfloor>(18014398509481985::rat) / 4\<rfloor> = 4503599627370496"
    by (rule floor_unique) simp_all
  show ?thesis
    unfolding round_double_def Let_def fl
    by (simp add: ulp_def round_half_even_def Let_def f)
qed

lemma round_double_2_53_plus_1:
  "round_double (of_int 9007199254740993) = Finite 9007199254740992"
proof -
  have fl: "floor_log2 (of_int 9007199254740993) = 53"
    using floor_log2_ge1[of 53 "of_int 9007199254740993"] by simp
  have f: "\<lfloor>(9007199254740993::rat) / 2\<rfloor> = 4503599627370496"
    by (rule floor_unique) simp_all
  show ?thesis
    unfolding round_double_def Let_def fl
    by (simp add: ulp_def round_half_even_def Let_def f)
qed

lemma round_double_overflow:
  "round_double (of_int (2 ^ 1024)) = NonFinite PosInf"
proof -
  have r: "(of_int (2 ^ 1024) :: rat) = 2 ^ 1024" by simp
  have lo: "(2::rat) ^ 1024 \<le> \<bar>2 ^ 1024\<bar>" by simp
  have "(2::rat) ^ 1024 < 2 ^ Suc 1024" by (rule power_strict_increasing) simp_all
  then have hi: "\<bar>(2::rat) ^ 1024\<bar> < 2 ^ Suc 1024" by simp
  have fl: "floor_log2 (2 ^ 1024) = 1024"
    using floor_log2_ge1[OF lo hi] by simp
  have q: "ulp 1024 = 2 ^ 972" by (simp add: ulp_def)
  have "(2::rat) ^ 1024 = 2 ^ 52 * 2 ^ 972" by (simp only: power_add[symmetric]) simp
  then have d: "(2::rat) ^ 1024 / 2 ^ 972 = of_int (2 ^ 52)" by simp
  have rh: "round_half_even ((2::rat) ^ 1024 / 2 ^ 972) = 2 ^ 52"
    unfolding d by (rule round_half_even_of_int)
  have v: "(of_int (2 ^ 52) :: rat) * 2 ^ 972 = 2 ^ 1024"
    by (simp only: of_int_power of_int_numeral power_add[symmetric]) simp
  have nz: "(2::rat) ^ 1024 \<noteq> 0" by simp
  show ?thesis
    unfolding r round_double_def Let_def fl q rh v
    using nz by simp
qed

lemma float_of_int_exact:
  assumes "\<bar>i\<bar> < 2 ^ 53"
  shows "float_of_int i = Inr (Finite (of_int i))"
  unfolding float_of_int_def round_double_int_exact[OF assms] by simp

lemma float_of_int_cases:
  "(\<exists>f. float_of_int i = Inr (Finite f)) \<or> float_of_int i = Inl OverflowError"
  unfolding float_of_int_def by (cases "round_double (of_int i)") simp_all

lemma duration_multiplier: "float_of_int DATAPATH_INIT_DURATION_MULTIPLIER = Inr (Finite 10)"
  unfolding DATAPATH_INIT_DURATION_MULTIPLIER_def using float_of_int_exact[of 10] by simp

lemma duration_of_float:
  assumes "\<not> is_flat_memory self" and "rd self DP_PATH_INIT_DURATION \<noteq> PNone"
    and "py_float py (rd self DP_PATH_INIT_DURATION) = Inr value"
  shows "get_datapath_init_duration py self =
           Inr (float_val (if float_le_int value 1000 then float_mul value (Finite 10)
                           else value))"
  using assms
  by (simp add: get_datapath_init_duration_def Let_def duration_multiplier ebind_def
      DATAPATH_INIT_DURATION_OVERRIDE_THRESHOLD_def)

lemma duration_of_error:
  assumes "\<not> is_flat_memory self" and "rd self DP_PATH_INIT_DURATION \<noteq> PNone"
    and "py_float py (rd self DP_PATH_INIT_DURATION) = Inl e"
  shows "get_datapath_init_duration py self = Inl e"
  using assms by (simp add: get_datapath_init_duration_def Let_def ebind_def)

lemma nonfinite_duration:
  "float_val (if float_le_int (NonFinite n) 1000 then float_mul (NonFinite n) (Finite 10)
              else NonFinite n) = PNonFinite n"
  by (cases n) simp_all

text \<open>
  C8. On a module that is not flat memory the raw duration is converted with \<^verbatim>\<open>float\<close>,
  and the float is returned multiplied by ten when it is at most 1000 and unchanged when
  it is larger. The product is the float product, that is the exact product rounded to
  the nearest double. The statement covers every kind of raw value: an integer (rounded
  to a double by the conversion, exactly itself below \<open>2^49\<close> in magnitude, and
  \<^verbatim>\<open>OverflowError\<close> when no double is near enough), a float, a \<^verbatim>\<open>bool\<close>, a string that parses
  to a finite float, one that parses to an infinity or \<^verbatim>\<open>nan\<close> (returned as it is), one
  that does not parse (\<^verbatim>\<open>ValueError\<close>), a non-finite float, a dictionary (\<^verbatim>\<open>TypeError\<close>) and
  a failed read (the integer 0).
\<close>

theorem datapath_init_duration_override:
  assumes "\<not> is_flat_memory self"
  shows "(rd self DP_PATH_INIT_DURATION = PInt d \<and> float_of_int d = Inr (Finite f) \<longrightarrow>
            get_datapath_init_duration py self
              = Inr (if f \<le> 1000 then float_val (round_double (f * 10)) else PFloat f)) \<and>
         (rd self DP_PATH_INIT_DURATION = PInt d \<and> \<bar>d\<bar> < 2 ^ 49 \<longrightarrow>
            get_datapath_init_duration py self
              = Inr (PFloat (if d \<le> 1000 then of_int d * 10 else of_int d))) \<and>
         (rd self DP_PATH_INIT_DURATION = PInt d \<and> float_of_int d = Inl OverflowError \<longrightarrow>
            get_datapath_init_duration py self = Inl OverflowError) \<and>
         (rd self DP_PATH_INIT_DURATION = PFloat r \<longrightarrow>
            get_datapath_init_duration py self
              = Inr (if r \<le> 1000 then float_val (round_double (r * 10)) else PFloat r)) \<and>
         (rd self DP_PATH_INIT_DURATION = PBool b \<longrightarrow>
            get_datapath_init_duration py self = Inr (PFloat (if b then 10 else 0))) \<and>
         (rd self DP_PATH_INIT_DURATION = PStr s \<and> float_of_str py s = Some (Finite r) \<longrightarrow>
            get_datapath_init_duration py self
              = Inr (if r \<le> 1000 then float_val (round_double (r * 10)) else PFloat r)) \<and>
         (rd self DP_PATH_INIT_DURATION = PStr s \<and> float_of_str py s = Some (NonFinite n) \<longrightarrow>
            get_datapath_init_duration py self = Inr (PNonFinite n)) \<and>
         (rd self DP_PATH_INIT_DURATION = PStr s \<and> float_of_str py s = None \<longrightarrow>
            get_datapath_init_duration py self = Inl ValueError) \<and>
         (rd self DP_PATH_INIT_DURATION = PNonFinite n \<longrightarrow>
            get_datapath_init_duration py self = Inr (PNonFinite n)) \<and>
         (rd self DP_PATH_INIT_DURATION = PDict kv \<longrightarrow>
            get_datapath_init_duration py self = Inl TypeError) \<and>
         (rd self DP_PATH_INIT_DURATION = PNone \<longrightarrow>
            get_datapath_init_duration py self = Inr (PInt 0))"
proof -
  note ok = duration_of_float[OF assms] and err = duration_of_error[OF assms]
  have c1: "get_datapath_init_duration py self
              = Inr (if f \<le> 1000 then float_val (round_double (f * 10)) else PFloat f)"
    if "rd self DP_PATH_INIT_DURATION = PInt d" "float_of_int d = Inr (Finite f)" for f
    using that ok[of py "Finite f"] by (simp add: py_float_def)
  have c2: "get_datapath_init_duration py self
              = Inr (PFloat (if d \<le> 1000 then of_int d * 10 else of_int d))"
    if rd: "rd self DP_PATH_INIT_DURATION = PInt d" and small: "\<bar>d\<bar> < 2 ^ 49"
  proof -
    from small have "\<bar>d\<bar> < 2 ^ 53" by simp
    from float_of_int_exact[OF this] have fd: "float_of_int d = Inr (Finite (of_int d))" .
    from small have "\<bar>d * 10\<bar> < 2 ^ 53" by (simp add: abs_mult)
    from round_double_int_exact[OF this]
    have "round_double (of_int d * 10) = Finite (of_int d * 10)" by simp
    with c1[OF rd fd] show ?thesis by simp
  qed
  have c3: "get_datapath_init_duration py self = Inl OverflowError"
    if "rd self DP_PATH_INIT_DURATION = PInt d" "float_of_int d = Inl OverflowError"
    using that err[of py OverflowError] by (simp add: py_float_def)
  have c4: "get_datapath_init_duration py self
              = Inr (if r \<le> 1000 then float_val (round_double (r * 10)) else PFloat r)"
    if "rd self DP_PATH_INIT_DURATION = PFloat r"
    using that ok[of py "Finite r"] by (simp add: py_float_def)
  have c5: "get_datapath_init_duration py self = Inr (PFloat (if b then 10 else 0))"
    if "rd self DP_PATH_INIT_DURATION = PBool b"
    using that ok[of py "Finite (if b then 1 else 0)"] round_double_int_exact[of 10]
    by (simp add: py_float_def round_double_def)
  have c6: "get_datapath_init_duration py self
              = Inr (if r \<le> 1000 then float_val (round_double (r * 10)) else PFloat r)"
    if "rd self DP_PATH_INIT_DURATION = PStr s" "float_of_str py s = Some (Finite r)"
    using that ok[of py "Finite r"] by (simp add: py_float_def)
  have c7: "get_datapath_init_duration py self = Inr (PNonFinite n)"
    if "rd self DP_PATH_INIT_DURATION = PStr s" "float_of_str py s = Some (NonFinite n)"
    using that ok[of py "NonFinite n"] by (simp add: py_float_def nonfinite_duration)
  have c8: "get_datapath_init_duration py self = Inl ValueError"
    if "rd self DP_PATH_INIT_DURATION = PStr s" "float_of_str py s = None"
    using that err[of py ValueError] by (simp add: py_float_def)
  have c9: "get_datapath_init_duration py self = Inr (PNonFinite n)"
    if "rd self DP_PATH_INIT_DURATION = PNonFinite n"
    using that ok[of py "NonFinite n"] by (simp add: py_float_def nonfinite_duration)
  have c10: "get_datapath_init_duration py self = Inl TypeError"
    if "rd self DP_PATH_INIT_DURATION = PDict kv"
    using that err[of py TypeError] by (simp add: py_float_def)
  have c11: "get_datapath_init_duration py self = Inr (PInt 0)"
    if "rd self DP_PATH_INIT_DURATION = PNone"
    using that assms by (simp add: get_datapath_init_duration_def)
  show ?thesis
    by (intro conjI impI; (elim conjE)?;
        (rule c1 c2 c3 c4 c5 c6 c7 c8 c9 c10 c11; assumption))
qed

lemma module_duration_reads:
  "\<not> is_flat_memory (module_duration raw)"
  "rd (module_duration raw) DP_PATH_INIT_DURATION = raw"
  by (simp_all add: module_duration_def is_flat_memory_def example_module_def
      example_eeprom_def rd_def eeprom_read_def)

theorem datapath_init_duration_override_witness:
  "get_datapath_init_duration example_ext (module_duration (PInt 1000)) = Inr (PFloat 10000) \<and>
   get_datapath_init_duration example_ext (module_duration (PInt 1001)) = Inr (PFloat 1001) \<and>
   get_datapath_init_duration example_ext (module_duration (PFloat (1 / 2))) = Inr (PFloat 5) \<and>
   get_datapath_init_duration example_ext (module_duration (PFloat (3602879701896397 / 36028797018963968))) = Inr (PFloat 1) \<and>
   get_datapath_init_duration example_ext (module_duration (PInt 9007199254740993)) = Inr (PFloat 9007199254740992) \<and>
   get_datapath_init_duration example_ext (module_duration (PInt (2 ^ 1024))) = Inl OverflowError \<and>
   get_datapath_init_duration example_ext (module_duration (PStr ''50'')) = Inr (PFloat 500) \<and>
   get_datapath_init_duration example_ext (module_duration (PStr ''inf'')) = Inr (PNonFinite PosInf) \<and>
   get_datapath_init_duration example_ext (module_duration (PStr ''abc'')) = Inl ValueError \<and>
   get_datapath_init_duration example_ext (module_duration (PBool True)) = Inr (PFloat 10) \<and>
   get_datapath_init_duration example_ext (module_duration (PNonFinite NegInf)) = Inr (PNonFinite NegInf)"
proof -
  have five: "round_double 5 = Finite 5"
    using round_double_int_exact[of 5] by simp
  have five_hundred: "round_double 500 = Finite 500"
    using round_double_int_exact[of 500] by simp
  have tenth: "round_double (18014398509481985 / 18014398509481984) = Finite 1"
    using round_double_tenth_times_10 by simp
  have big: "float_of_int 9007199254740993 = Inr (Finite 9007199254740992)"
    using round_double_2_53_plus_1 by (simp add: float_of_int_def)
  have over: "float_of_int (2 ^ 1024) = Inl OverflowError"
    using round_double_overflow by (simp add: float_of_int_def)
  have w1: "get_datapath_init_duration example_ext (module_duration (PInt 1000)) = Inr (PFloat 10000)"
    using datapath_init_duration_override[OF module_duration_reads(1)[of "PInt 1000"],
        where py = example_ext and d = 1000, THEN conjunct2, THEN conjunct1]
    by (simp add: module_duration_reads(2))
  have w2: "get_datapath_init_duration example_ext (module_duration (PInt 1001)) = Inr (PFloat 1001)"
    using datapath_init_duration_override[OF module_duration_reads(1)[of "PInt 1001"],
        where py = example_ext and d = 1001, THEN conjunct2, THEN conjunct1]
    by (simp add: module_duration_reads(2))
  have w3: "get_datapath_init_duration example_ext (module_duration (PFloat (1 / 2))) = Inr (PFloat 5)"
    using datapath_init_duration_override[OF module_duration_reads(1)[of "PFloat (1 / 2)"],
        where py = example_ext and r = "1 / 2", THEN conjunct2, THEN conjunct2, THEN conjunct2, THEN conjunct1]
    by (simp add: module_duration_reads(2) five)
  have w4: "get_datapath_init_duration example_ext (module_duration (PFloat (3602879701896397 / 36028797018963968))) = Inr (PFloat 1)"
    using datapath_init_duration_override[OF module_duration_reads(1)[of "PFloat (3602879701896397 / 36028797018963968)"],
        where py = example_ext and r = "3602879701896397 / 36028797018963968", THEN conjunct2, THEN conjunct2, THEN conjunct2, THEN conjunct1]
    by (simp add: module_duration_reads(2) tenth)
  have w5: "get_datapath_init_duration example_ext (module_duration (PInt 9007199254740993)) = Inr (PFloat 9007199254740992)"
    using datapath_init_duration_override[OF module_duration_reads(1)[of "PInt 9007199254740993"],
        where py = example_ext and d = 9007199254740993 and f = 9007199254740992, THEN conjunct1]
    by (simp add: module_duration_reads(2) big)
  have w6: "get_datapath_init_duration example_ext (module_duration (PInt (2 ^ 1024))) = Inl OverflowError"
    by (rule datapath_init_duration_override[OF module_duration_reads(1)[of "PInt (2 ^ 1024)"],
          where py = example_ext and d = "2 ^ 1024", THEN conjunct2, THEN conjunct2,
          THEN conjunct1, THEN mp])
       (intro conjI module_duration_reads(2) over)
  have w7: "get_datapath_init_duration example_ext (module_duration (PStr ''50'')) = Inr (PFloat 500)"
    using datapath_init_duration_override[OF module_duration_reads(1)[of "PStr ''50''"],
        where py = example_ext and s = "''50''" and r = 50, THEN conjunct2, THEN conjunct2, THEN conjunct2, THEN conjunct2, THEN conjunct2, THEN conjunct1]
    by (simp add: module_duration_reads(2) five_hundred example_ext_def)
  have w8: "get_datapath_init_duration example_ext (module_duration (PStr ''inf'')) = Inr (PNonFinite PosInf)"
    using datapath_init_duration_override[OF module_duration_reads(1)[of "PStr ''inf''"],
        where py = example_ext and s = "''inf''" and n = PosInf, THEN conjunct2, THEN conjunct2, THEN conjunct2, THEN conjunct2, THEN conjunct2, THEN conjunct2, THEN conjunct1]
    by (simp add: module_duration_reads(2) example_ext_def)
  have w9: "get_datapath_init_duration example_ext (module_duration (PStr ''abc'')) = Inl ValueError"
    using datapath_init_duration_override[OF module_duration_reads(1)[of "PStr ''abc''"],
        where py = example_ext and s = "''abc''", THEN conjunct2, THEN conjunct2, THEN conjunct2, THEN conjunct2, THEN conjunct2, THEN conjunct2, THEN conjunct2, THEN conjunct1]
    by (simp add: module_duration_reads(2) example_ext_def)
  have w10: "get_datapath_init_duration example_ext (module_duration (PBool True)) = Inr (PFloat 10)"
    using datapath_init_duration_override[OF module_duration_reads(1)[of "PBool True"],
        where py = example_ext and b = True, THEN conjunct2, THEN conjunct2, THEN conjunct2, THEN conjunct2, THEN conjunct1]
    by (simp add: module_duration_reads(2))
  have w11: "get_datapath_init_duration example_ext (module_duration (PNonFinite NegInf)) = Inr (PNonFinite NegInf)"
    using datapath_init_duration_override[OF module_duration_reads(1)[of "PNonFinite NegInf"],
        where py = example_ext and n = NegInf, THEN conjunct2, THEN conjunct2, THEN conjunct2, THEN conjunct2, THEN conjunct2, THEN conjunct2, THEN conjunct2, THEN conjunct2, THEN conjunct1]
    by (simp add: module_duration_reads(2))
  show ?thesis
    by (intro conjI w1 w2 w3 w4 w5 w6 w7 w8 w9 w10 w11)
qed

section \<open>Flat memory\<close>

lemma init_handles:
  "vdm (init e v c) = (if mem e FLAT_MEM_FIELD \<noteq> PBool False then None else Some v)"
  "cdb (init e v c) = (if mem e FLAT_MEM_FIELD \<noteq> PBool False then None else Some c)"
  "xcvr_eeprom (init e v c) = e"
  by (simp_all add: init_def is_flat_memory_def rd_def eeprom_read_def Let_def)

lemma is_flat_memory_init: "is_flat_memory (init e v c) = (mem e FLAT_MEM_FIELD \<noteq> PBool False)"
  by (simp add: is_flat_memory_def rd_def eeprom_read_def init_handles)

text \<open>
  What holds of the claim C9: a flat-memory read that returns anything but \<^verbatim>\<open>False\<close>, a
  failed read included, makes the module flat memory and leaves both handles at \<^verbatim>\<open>None\<close>,
  and the getters guarded by \<^verbatim>\<open>is_flat_memory\<close> or by a test of the handle return their
  sentinels.
\<close>

lemma flat_memory_handles:
  assumes "mem e FLAT_MEM_FIELD \<noteq> PBool False"
  shows "is_flat_memory (init e v c) \<and> vdm (init e v c) = None \<and> cdb (init e v c) = None"
  using assms by (simp add: init_handles is_flat_memory_init)

lemma flat_memory_sentinels:
  assumes "is_flat_memory self"
  shows "get_module_hardware_revision py self = ''0.0''"
    and "get_module_inactive_firmware py self = ''N/A''"
    and "get_datapath_init_duration py self = Inr (PInt 0)"
    and "get_host_electrical_interface self = NA"
    and "get_media_lane_count self appl = Inr (PInt 0)"
    and "get_media_lane_assignment_option self appl = Inr NA"
    and "get_active_apsel_hostlane self = DefaultDictNA"
    and "get_loopback_capability self = Inr None"
    and "get_aux_mon_type self = Inr None"
    and "get_laser_temperature self = Inr laser_temp_default"
    and "get_tx_bias py self = Inr (Some na_lanes)"
    and "get_transceiver_threshold_info py self
           = Inr (Some (map (\<lambda>k. (k, NA)) threshold_info_keys))"
  using assms
  by (simp_all add: get_module_hardware_revision_def get_module_inactive_firmware_def
      get_datapath_init_duration_def get_host_electrical_interface_def
      get_media_lane_count_def get_media_lane_assignment_option_def
      get_active_apsel_hostlane_def get_loopback_capability_def get_aux_mon_type_def
      get_laser_temperature_def get_tx_bias_def get_tx_bias_support_def
      get_transceiver_threshold_info_def get_transceiver_thresholds_support_def)

lemma no_handle_sentinels:
  assumes "vdm self = None" and "cdb self = None"
  shows "is_transceiver_vdm_supported self = PBool False"
    and "get_vdm self (Some fo) = Inr (VDict [])"
    and "get_module_fw_info py self
           = Inr (\<lparr>fi_status = False, fi_info = ''CDB Not supported'', fi_result = ResultNone\<rparr>, self)"
    and "module_fw_run self mode = ((False, ''CDB NOT supported on this module''), self)"
    and "module_fw_commit self = ((False, ''CDB NOT supported on this module''), self)"
  using assms
  by (simp_all add: is_transceiver_vdm_supported_def get_vdm_def get_module_fw_info_def
      module_fw_run_def module_fw_commit_def ebind_def)

text \<open>
  C9, where the code departs from it. After a failed read of the flat-memory field at
  construction the module is flat memory and both handles are \<^verbatim>\<open>None\<close>, as claimed; but
  the three VDM aggregation getters, and \<^verbatim>\<open>get_vdm\<close> called without a field option, take
  an attribute of the \<^verbatim>\<open>None\<close> handle and raise \<^verbatim>\<open>AttributeError\<close> instead of returning a
  sentinel.
\<close>

theorem flat_read_failure_vdm_getters_raise:
  "rd module_flat_read_failed FLAT_MEM_FIELD = PNone \<and>
   is_flat_memory module_flat_read_failed \<and>
   vdm module_flat_read_failed = None \<and>
   cdb module_flat_read_failed = None \<and>
   get_transceiver_vdm_real_value module_flat_read_failed = Inl AttributeError \<and>
   get_transceiver_vdm_thresholds module_flat_read_failed = Inl AttributeError \<and>
   get_transceiver_vdm_flags module_flat_read_failed = Inl AttributeError \<and>
   get_vdm module_flat_read_failed None = Inl AttributeError"
  by (simp add: module_flat_read_failed_def init_handles is_flat_memory_init
      example_eeprom_def rd_def eeprom_read_def get_transceiver_vdm_real_value_def
      get_transceiver_vdm_thresholds_def get_transceiver_vdm_flags_def get_vdm_def ebind_def)

section \<open>Firmware run, commit and download\<close>

text \<open>
  What holds of the claim C4: a status of 70 is followed by exactly one password entry and
  exactly one more issue of the same command. The value returned then is \<^verbatim>\<open>True\<close>, whatever
  status the second issue returns.
\<close>

lemma module_fw_run_password:
  assumes "cdb self = Some c"
    and "cdb_status (respond c (cdb_log self) (RunFwImage mode)) = 70"
  shows "\<exists>txt. module_fw_run self mode =
           ((True, txt),
            self\<lparr>cdb_log := cdb_log self @ [RunFwImage mode, ModuleEnterPassword None,
                                            RunFwImage mode]\<rparr>)"
  using assms by (simp add: module_fw_run_def cdb_call_def)

lemma module_fw_commit_password:
  assumes "cdb self = Some c"
    and "cdb_status (respond c (cdb_log self) CommitFwImage) = 70"
  shows "\<exists>txt. module_fw_commit self =
           ((True, txt),
            self\<lparr>cdb_log := cdb_log self @ [CommitFwImage, ModuleEnterPassword None,
                                            CommitFwImage]\<rparr>)"
  using assms by (simp add: module_fw_commit_def cdb_call_def)

lemma str_int_70: "str_int 70 = ''70''"
  by (simp add: str_int_def)

text \<open>
  C4, where the code departs from it. On a module whose CDB keeps answering 70, run and
  commit enter the password once, issue the command once more, and return \<^verbatim>\<open>True\<close> although
  the second issue did not succeed either. On a module whose CDB answers 70 to both
  start-download commands, the download goes on to write the remaining block, validates,
  and returns \<^verbatim>\<open>True\<close>.
\<close>

theorem password_retry_result_ignored:
  "module_fw_run (module_with_cdb (cdb_always 70)) 1 =
     ((True, ''FW_run_status 70'' @ nl),
      (module_with_cdb (cdb_always 70))
        \<lparr>cdb_log := [RunFwImage 1, ModuleEnterPassword None, RunFwImage 1]\<rparr>) \<and>
   module_fw_commit (module_with_cdb (cdb_always 70)) =
     ((True, ''FW_commit_status 70'' @ nl),
      (module_with_cdb (cdb_always 70))
        \<lparr>cdb_log := [CommitFwImage, ModuleEnterPassword None, CommitFwImage]\<rparr>) \<and>
   module_fw_download example_files ''0.00'' (module_with_cdb cdb_start_refused)
       4 8 False False 8 ''fw.bin'' =
     Some (Inr ((True, ''Module FW download complete: Success''
                       @ ''Complete module FW download time: 0.00 s'' @ nl),
                (module_with_cdb cdb_start_refused)
                  \<lparr>cdb_log := [StartFwDownload 4 [1, 2, 3, 4] 6, ModuleEnterPassword None,
                                StartFwDownload 4 [1, 2, 3, 4] 6,
                                BlockWriteEpl 0 [5, 6] False 8, ValidateFwImage]\<rparr>))"
proof -
  have run: "module_fw_run (module_with_cdb (cdb_always 70)) 1 =
     ((True, ''FW_run_status 70'' @ nl),
      (module_with_cdb (cdb_always 70))
        \<lparr>cdb_log := [RunFwImage 1, ModuleEnterPassword None, RunFwImage 1]\<rparr>)"
    by (simp add: module_fw_run_def module_with_cdb_def cdb_always_def cdb_call_def str_int_70)
  have commit: "module_fw_commit (module_with_cdb (cdb_always 70)) =
     ((True, ''FW_commit_status 70'' @ nl),
      (module_with_cdb (cdb_always 70))
        \<lparr>cdb_log := [CommitFwImage, ModuleEnterPassword None, CommitFwImage]\<rparr>)"
    by (simp add: module_fw_commit_def module_with_cdb_def cdb_always_def cdb_call_def str_int_70)
  have st: "cdb_status (respond cdb_start_refused h (StartFwDownload n d sz)) = 70"
    "cdb_status (respond cdb_start_refused h (BlockWriteEpl a d f w)) = 1"
    "cdb_status (respond cdb_start_refused h ValidateFwImage) = 1" for h n d sz a f w
    by (simp_all add: cdb_start_refused_def)
  have blocks: "fw_download_blocks cdb_start_refused [1, 2, 3, 4, 5, 6] 8 False False 8 s 0 2
        (Suc (Suc (Suc (Suc 0)))) =
      Some (Inr (None, s\<lparr>cdb_log := cdb_log s @ [BlockWriteEpl 0 [5, 6] False 8]\<rparr>))" for s
    apply (subst fw_download_blocks.simps)
    apply (simp add: file_read_def cdb_call_def st Let_def)
    apply (subst fw_download_blocks.simps)
    apply simp
    done
  have download: "module_fw_download example_files ''0.00'' (module_with_cdb cdb_start_refused)
       4 8 False False 8 ''fw.bin'' =
     Some (Inr ((True, ''Module FW download complete: Success''
                       @ ''Complete module FW download time: 0.00 s'' @ nl),
                (module_with_cdb cdb_start_refused)
                  \<lparr>cdb_log := [StartFwDownload 4 [1, 2, 3, 4] 6, ModuleEnterPassword None,
                                StartFwDownload 4 [1, 2, 3, 4] 6,
                                BlockWriteEpl 0 [5, 6] False 8, ValidateFwImage]\<rparr>))"
    by (simp add: module_fw_download_def fw_download_transfer_def example_files_def
        module_with_cdb_def file_read_def cdb_call_def st blocks Let_def)
  from run commit download show ?thesis by blast
qed

section \<open>TX-bias scale\<close>

lemma ebind_Inr [simp]: "ebind (Inr x) f = f x"
  by (simp add: ebind_def)

lemma ebind_Inl [simp]: "ebind (Inl e) f = Inl e"
  by (simp add: ebind_def)

lemma ebind_eq_Inr: "ebind m f = Inr y \<Longrightarrow> \<exists>x. m = Inr x \<and> f x = Inr y"
  by (cases m) simp_all

















section \<open>Firmware bank switch\<close>

lemma fw_info_decode_tuple:
  assumes "fw_info_decode py self n payload = Inr r"
  shows "\<exists>flags. fi_result r = ResultTuple flags"
  using assms
  by (auto simp: fw_info_decode_def Let_def split_beta dest!: ebind_eq_Inr)

lemma get_module_fw_info_no_flags:
  assumes "get_module_fw_info py self = Inr (r, s)"
    and "\<forall>flags. fi_result r \<noteq> ResultTuple flags"
  shows "fi_status r = False"
proof (cases "cdb self")
  case None
  with assms(1) show ?thesis by (auto simp: get_module_fw_info_def)
next
  case (Some c)
  show ?thesis
    using assms Some
    by (auto simp: get_module_fw_info_def Let_def split_beta
        split: if_splits dest!: ebind_eq_Inr fw_info_decode_tuple)
qed

text \<open>
  C5 as stated fails. On a module whose CDB reports bank A valid, bank B invalid and
  neither bank running, \<^verbatim>\<open>module_fw_switch\<close> returns \<^verbatim>\<open>False\<close> after the first query, without
  issuing run or commit. The flags it captured, which a query after the call reports
  again, satisfy neither condition of the claim: no bank that was running is still
  running, and bank A is valid.
\<close>

lemma fw_info_bank_b_invalid:
  "get_module_fw_info example_ext ((module_with_cdb cdb_bank_b_invalid)\<lparr>cdb_log := h\<rparr>) =
     Inr (\<lparr>fi_status = True,
           fi_info = ''Image A Version: 1.2.3'' @ nl @ ''Image B Version: N/A'' @ nl
                     @ ''Running Image: N/A'' @ nl @ ''Committed Image: N/A'' @ nl
                     @ ''Active Firmware: N/A'' @ nl @ ''Inactive Firmware: N/A'' @ nl,
           fi_result = ResultTuple flags_bank_b_invalid\<rparr>,
          (module_with_cdb cdb_bank_b_invalid)\<lparr>cdb_log := h @ [GetFwInfo]\<rparr>)"
  by (simp add: get_module_fw_info_def module_with_cdb_def cdb_bank_b_invalid_def cdb_call_def
      fw_info_reply_def fw_info_decode_def image_version_def rpl_at_def py_index_def
      flags_bank_b_invalid_def str_int_def Let_def)

theorem switch_refused_with_one_valid_bank:
  "module_fw_switch example_ext (module_with_cdb cdb_bank_b_invalid) =
     Inr ((False, ''Not both images are valid.''),
          (module_with_cdb cdb_bank_b_invalid)\<lparr>cdb_log := [GetFwInfo]\<rparr>) \<and>
   map_sum id (\<lambda>(r, s). fi_result r)
     (get_module_fw_info example_ext (module_with_cdb cdb_bank_b_invalid))
     = Inr (ResultTuple flags_bank_b_invalid) \<and>
   map_sum id (\<lambda>(r, s). fi_result r)
     (get_module_fw_info example_ext
        ((module_with_cdb cdb_bank_b_invalid)\<lparr>cdb_log := [GetFwInfo]\<rparr>))
     = Inr (ResultTuple flags_bank_b_invalid) \<and>
   spec_switch_fails flags_bank_b_invalid flags_bank_b_invalid = False"
proof -
  have m: "module_with_cdb cdb_bank_b_invalid
             = (module_with_cdb cdb_bank_b_invalid)\<lparr>cdb_log := []\<rparr>"
    by (simp add: module_with_cdb_def)
  have first: "get_module_fw_info example_ext (module_with_cdb cdb_bank_b_invalid) =
     Inr (\<lparr>fi_status = True,
           fi_info = ''Image A Version: 1.2.3'' @ nl @ ''Image B Version: N/A'' @ nl
                     @ ''Running Image: N/A'' @ nl @ ''Committed Image: N/A'' @ nl
                     @ ''Active Firmware: N/A'' @ nl @ ''Inactive Firmware: N/A'' @ nl,
           fi_result = ResultTuple flags_bank_b_invalid\<rparr>,
          (module_with_cdb cdb_bank_b_invalid)\<lparr>cdb_log := [GetFwInfo]\<rparr>)"
    using fw_info_bank_b_invalid[of "[]"] m by simp
  have sw: "module_fw_switch example_ext (module_with_cdb cdb_bank_b_invalid) =
     Inr ((False, ''Not both images are valid.''),
          (module_with_cdb cdb_bank_b_invalid)\<lparr>cdb_log := [GetFwInfo]\<rparr>)"
    by (simp add: module_fw_switch_def first) (simp add: flags_bank_b_invalid_def)
  have spec: "spec_switch_fails flags_bank_b_invalid flags_bank_b_invalid = False"
    by (simp add: spec_switch_fails_def still_running_def neither_valid_def
        flags_bank_b_invalid_def)
  show ?thesis
    using sw first fw_info_bank_b_invalid[of "[GetFwInfo]"] spec by simp
qed

text \<open>
  C5 as amended. \<^verbatim>\<open>module_fw_switch\<close> captures the bank flags with a firmware-info query.
  When not both banks are valid at the outset it returns \<^verbatim>\<open>False\<close> in the state reached by
  that query, so neither run nor commit is issued. When both are valid it issues run and
  commit, queries again, and, where that second query yields flags, returns \<^verbatim>\<open>False\<close> if a
  bank that was running at the outset is still reported running and \<^verbatim>\<open>True\<close> otherwise.
  When the first query yields no flags it returns \<^verbatim>\<open>False\<close> with the query's text.
\<close>

theorem module_fw_switch_verdict:
  assumes "get_module_fw_info py self = Inr (r0, self1)"
  shows "(\<forall>before. fi_result r0 = ResultTuple before \<and> \<not> both_valid before \<longrightarrow>
            module_fw_switch py self = Inr ((False, ''Not both images are valid.''), self1)) \<and>
         (\<forall>before r1 self4 after.
            fi_result r0 = ResultTuple before \<and> both_valid before \<and>
            get_module_fw_info py (snd (module_fw_commit (snd (module_fw_run self1 1))))
              = Inr (r1, self4) \<and>
            fi_result r1 = ResultTuple after \<longrightarrow>
              (\<exists>txt. module_fw_switch py self
                      = Inr ((\<not> still_running before after, txt), self4))) \<and>
         ((\<forall>before. fi_result r0 \<noteq> ResultTuple before) \<longrightarrow>
            module_fw_switch py self = Inr ((False, fi_info r0), self1))"
proof (intro conjI allI impI)
  fix before
  assume "fi_result r0 = ResultTuple before \<and> \<not> both_valid before"
  then show "module_fw_switch py self = Inr ((False, ''Not both images are valid.''), self1)"
    using assms by (auto simp: module_fw_switch_def both_valid_def)
next
  fix before r1 self4 after
  assume a: "fi_result r0 = ResultTuple before \<and> both_valid before \<and>
            get_module_fw_info py (snd (module_fw_commit (snd (module_fw_run self1 1))))
              = Inr (r1, self4) \<and>
            fi_result r1 = ResultTuple after"
  then show "\<exists>txt. module_fw_switch py self
                      = Inr ((\<not> still_running before after, txt), self4)"
    using assms
    by (simp add: module_fw_switch_def both_valid_def still_running_def split_beta Let_def)
next
  assume n: "\<forall>before. fi_result r0 \<noteq> ResultTuple before"
  from get_module_fw_info_no_flags[OF assms n] have "fi_status r0 = False" .
  with n show "module_fw_switch py self = Inr ((False, fi_info r0), self1)"
    using assms by (cases "fi_result r0") (simp_all add: module_fw_switch_def)
qed

lemma fw_info_decode_a_running:
  "\<exists>txt. fw_info_decode example_ext s (Some 42) (0x03 # replicate 41 0)
     = Inr \<lparr>fi_status = True, fi_info = txt, fi_result = ResultTuple flags_a_running\<rparr>"
  by (simp add: fw_info_decode_def image_version_def rpl_at_def py_index_def
      flags_a_running_def str_int_def Let_def)

lemma fw_info_decode_b_running:
  "\<exists>txt. fw_info_decode example_ext s (Some 42) (0x30 # replicate 41 0)
     = Inr \<lparr>fi_status = True, fi_info = txt, fi_result = ResultTuple flags_b_running\<rparr>"
  by (simp add: fw_info_decode_def image_version_def rpl_at_def py_index_def
      flags_b_running_def str_int_def Let_def)

lemma fw_info_switching:
  "\<exists>r. get_module_fw_info example_ext ((module_with_cdb cdb_switching)\<lparr>cdb_log := h\<rparr>)
          = Inr (r, (module_with_cdb cdb_switching)\<lparr>cdb_log := h @ [GetFwInfo]\<rparr>) \<and>
        fi_result r = ResultTuple (if RunFwImage 1 \<in> set h then flags_b_running
                                   else flags_a_running)"
proof (cases "RunFwImage 1 \<in> set h")
  case True
  from fw_info_decode_b_running obtain msg where
    "fw_info_decode example_ext ((module_with_cdb cdb_switching)\<lparr>cdb_log := h @ [GetFwInfo]\<rparr>)
       (Some 42) (0x30 # replicate 41 0)
     = Inr \<lparr>fi_status = True, fi_info = msg, fi_result = ResultTuple flags_b_running\<rparr>"
    by blast
  with True show ?thesis
    by (simp add: get_module_fw_info_def module_with_cdb_def cdb_switching_def cdb_call_def
        fw_info_reply_def)
next
  case False
  from fw_info_decode_a_running obtain msg where
    "fw_info_decode example_ext ((module_with_cdb cdb_switching)\<lparr>cdb_log := h @ [GetFwInfo]\<rparr>)
       (Some 42) (0x03 # replicate 41 0)
     = Inr \<lparr>fi_status = True, fi_info = msg, fi_result = ResultTuple flags_a_running\<rparr>"
    by blast
  with False show ?thesis
    by (simp add: get_module_fw_info_def module_with_cdb_def cdb_switching_def cdb_call_def
        fw_info_reply_def)
qed

lemma fw_info_stuck:
  "\<exists>r. get_module_fw_info example_ext ((module_with_cdb cdb_stuck)\<lparr>cdb_log := h\<rparr>)
          = Inr (r, (module_with_cdb cdb_stuck)\<lparr>cdb_log := h @ [GetFwInfo]\<rparr>) \<and>
        fi_result r = ResultTuple flags_a_running"
proof -
  from fw_info_decode_a_running obtain msg where
    "fw_info_decode example_ext ((module_with_cdb cdb_stuck)\<lparr>cdb_log := h @ [GetFwInfo]\<rparr>)
       (Some 42) (0x03 # replicate 41 0)
     = Inr \<lparr>fi_status = True, fi_info = msg, fi_result = ResultTuple flags_a_running\<rparr>"
    by blast
  then show ?thesis
    by (simp add: get_module_fw_info_def module_with_cdb_def cdb_stuck_def cdb_call_def
        fw_info_reply_def)
qed

lemma run_commit_log:
  assumes "\<And>h cmd. cdb_status (respond c h cmd) = 1"
  shows "snd (module_fw_commit (snd (module_fw_run ((module_with_cdb c)\<lparr>cdb_log := h\<rparr>) 1)))
           = (module_with_cdb c)\<lparr>cdb_log := h @ [RunFwImage 1, CommitFwImage]\<rparr>"
  by (simp add: module_fw_run_def module_fw_commit_def module_with_cdb_def cdb_call_def assms)

lemma module_with_cdb_log: "module_with_cdb c = (module_with_cdb c)\<lparr>cdb_log := []\<rparr>"
  by (simp add: module_with_cdb_def)

theorem module_fw_switch_verdict_witness:
  "module_fw_switch example_ext (module_with_cdb cdb_bank_b_invalid) =
     Inr ((False, ''Not both images are valid.''),
          (module_with_cdb cdb_bank_b_invalid)\<lparr>cdb_log := [GetFwInfo]\<rparr>) \<and>
   (\<exists>txt. module_fw_switch example_ext (module_with_cdb cdb_switching) =
      Inr ((True, txt),
           (module_with_cdb cdb_switching)
             \<lparr>cdb_log := [GetFwInfo, RunFwImage 1, CommitFwImage, GetFwInfo]\<rparr>)) \<and>
   (\<exists>txt. module_fw_switch example_ext (module_with_cdb cdb_stuck) =
      Inr ((False, txt),
           (module_with_cdb cdb_stuck)
             \<lparr>cdb_log := [GetFwInfo, RunFwImage 1, CommitFwImage, GetFwInfo]\<rparr>)) \<and>
   module_fw_switch example_ext (example_module []) =
     Inr ((False, ''CDB Not supported''), example_module [])"
proof -
  \<comment> \<open>one bank invalid\<close>
  have i0: "get_module_fw_info example_ext (module_with_cdb cdb_bank_b_invalid) =
     Inr (\<lparr>fi_status = True,
           fi_info = ''Image A Version: 1.2.3'' @ nl @ ''Image B Version: N/A'' @ nl
                     @ ''Running Image: N/A'' @ nl @ ''Committed Image: N/A'' @ nl
                     @ ''Active Firmware: N/A'' @ nl @ ''Inactive Firmware: N/A'' @ nl,
           fi_result = ResultTuple flags_bank_b_invalid\<rparr>,
          (module_with_cdb cdb_bank_b_invalid)\<lparr>cdb_log := [GetFwInfo]\<rparr>)"
    using fw_info_bank_b_invalid[of "[]"] module_with_cdb_log[of cdb_bank_b_invalid] by simp
  have nb: "\<not> both_valid flags_bank_b_invalid"
    by (simp add: both_valid_def flags_bank_b_invalid_def)
  have c1: "module_fw_switch example_ext (module_with_cdb cdb_bank_b_invalid) =
     Inr ((False, ''Not both images are valid.''),
          (module_with_cdb cdb_bank_b_invalid)\<lparr>cdb_log := [GetFwInfo]\<rparr>)"
    using module_fw_switch_verdict[OF i0, THEN conjunct1, rule_format, of flags_bank_b_invalid] nb
    by simp
  \<comment> \<open>the switch happens\<close>
  have va: "both_valid flags_a_running"
    by (simp add: both_valid_def flags_a_running_def)
  have sw: "\<not> still_running flags_a_running flags_b_running"
    and st: "still_running flags_a_running flags_a_running"
    by (simp_all add: still_running_def flags_a_running_def flags_b_running_def)
  have ok: "cdb_status (respond cdb_switching h cmd) = 1" for h cmd
    by (simp add: cdb_switching_def fw_info_reply_def)
  have ok': "cdb_status (respond cdb_stuck h cmd) = 1" for h cmd
    by (simp add: cdb_stuck_def fw_info_reply_def)
  let ?m = "module_with_cdb cdb_switching"
  from fw_info_switching[of "[]"] obtain r0 where
    r0: "get_module_fw_info example_ext ?m = Inr (r0, ?m\<lparr>cdb_log := [GetFwInfo]\<rparr>)"
      "fi_result r0 = ResultTuple flags_a_running"
    using module_with_cdb_log[of cdb_switching] by auto
  from fw_info_switching[of "[GetFwInfo, RunFwImage 1, CommitFwImage]"] obtain r1 where
    r1: "get_module_fw_info example_ext
           (?m\<lparr>cdb_log := [GetFwInfo, RunFwImage 1, CommitFwImage]\<rparr>)
         = Inr (r1, ?m\<lparr>cdb_log := [GetFwInfo, RunFwImage 1, CommitFwImage, GetFwInfo]\<rparr>)"
      "fi_result r1 = ResultTuple flags_b_running"
    by auto
  have c2: "\<exists>txt. module_fw_switch example_ext ?m =
      Inr ((True, txt), ?m\<lparr>cdb_log := [GetFwInfo, RunFwImage 1, CommitFwImage, GetFwInfo]\<rparr>)"
    using module_fw_switch_verdict[OF r0(1), THEN conjunct2, THEN conjunct1, rule_format,
        of flags_a_running r1 _ flags_b_running]
      r0(2) r1 va sw run_commit_log[of cdb_switching "[GetFwInfo]", OF ok]
    by simp
  \<comment> \<open>the switch does not happen\<close>
  let ?k = "module_with_cdb cdb_stuck"
  from fw_info_stuck[of "[]"] obtain q0 where
    q0: "get_module_fw_info example_ext ?k = Inr (q0, ?k\<lparr>cdb_log := [GetFwInfo]\<rparr>)"
      "fi_result q0 = ResultTuple flags_a_running"
    using module_with_cdb_log[of cdb_stuck] by auto
  from fw_info_stuck[of "[GetFwInfo, RunFwImage 1, CommitFwImage]"] obtain q1 where
    q1: "get_module_fw_info example_ext
           (?k\<lparr>cdb_log := [GetFwInfo, RunFwImage 1, CommitFwImage]\<rparr>)
         = Inr (q1, ?k\<lparr>cdb_log := [GetFwInfo, RunFwImage 1, CommitFwImage, GetFwInfo]\<rparr>)"
      "fi_result q1 = ResultTuple flags_a_running"
    by auto
  have c3: "\<exists>txt. module_fw_switch example_ext ?k =
      Inr ((False, txt), ?k\<lparr>cdb_log := [GetFwInfo, RunFwImage 1, CommitFwImage, GetFwInfo]\<rparr>)"
    using module_fw_switch_verdict[OF q0(1), THEN conjunct2, THEN conjunct1, rule_format,
        of flags_a_running q1 _ flags_a_running]
      q0(2) q1 va st run_commit_log[of cdb_stuck "[GetFwInfo]", OF ok']
    by simp
  \<comment> \<open>no CDB handle\<close>
  have n0: "get_module_fw_info example_ext (example_module []) =
      Inr (\<lparr>fi_status = False, fi_info = ''CDB Not supported'', fi_result = ResultNone\<rparr>,
           example_module [])"
    by (simp add: get_module_fw_info_def example_module_def)
  have c4: "module_fw_switch example_ext (example_module []) =
     Inr ((False, ''CDB Not supported''), example_module [])"
    using module_fw_switch_verdict[OF n0, THEN conjunct2, THEN conjunct2] by simp
  show ?thesis
    by (intro conjI c1 c2 c3 c4)
qed

end
